theory Spec2Isabelle
  imports Complex_Main "HOL-Library.Word"
begin

unbundle bit_operations_syntax

section \<open>Multiple point lights demo: lights, camera rig, input mapper, technique selection\<close>

text \<open>
  A shallow embedding of \<^verbatim>\<open>src/main.cpp\<close>. Conventions used throughout:
  \<^item> a C++ \<^verbatim>\<open>float\<close> is read as a \<^typ>\<open>real\<close>: arithmetic is exact, rounding, infinities
    and NaN of IEEE single precision are outside the model;
  \<^item> a C++ \<^verbatim>\<open>int\<close> or \<^verbatim>\<open>LONG\<close> is an \<^typ>\<open>int\<close> (the pointer coordinates and counters
    of the program stay far from the 32-bit limits); \<^verbatim>\<open>WPARAM\<close> and \<^verbatim>\<open>LPARAM\<close> are
    32-bit words, from which the code cuts 16-bit fields;
  \<^item> globals and function-local statics become fields of explicit state records, and
    every function that mutates them returns the new state;
  \<^item> functions of the D3DX and Win32 libraries have no source in the repository; the few
    that the modelled code calls are written out from their documented meaning and are
    marked as such.
\<close>

subsection \<open>Constants\<close>

definition D3DX_PI :: real where
  "D3DX_PI = pi"

definition D3DXToRadian :: "real \<Rightarrow> real" where
  "D3DXToRadian degree = degree * (D3DX_PI / 180)"

definition CAMERA_ZNEAR :: real where
  "CAMERA_ZNEAR = 1 / 100"

definition MOUSE_ORBIT_SPEED :: real where
  "MOUSE_ORBIT_SPEED = 3 / 10"

definition MOUSE_DOLLY_SPEED :: real where
  "MOUSE_DOLLY_SPEED = 1"

definition MOUSE_TRACK_SPEED :: real where
  "MOUSE_TRACK_SPEED = 1 / 2"

definition MOUSE_WHEEL_DOLLY_SPEED :: real where
  "MOUSE_WHEEL_DOLLY_SPEED = 1 / 4"

definition ROOM_SIZE_X :: real where
  "ROOM_SIZE_X = 256"

definition ROOM_SIZE_Y :: real where
  "ROOM_SIZE_Y = 128"

definition ROOM_SIZE_Z :: real where
  "ROOM_SIZE_Z = 256"

definition ROOM_SIZE_X_HALF :: real where
  "ROOM_SIZE_X_HALF = ROOM_SIZE_X * (1 / 2)"

definition ROOM_SIZE_Y_HALF :: real where
  "ROOM_SIZE_Y_HALF = ROOM_SIZE_Y * (1 / 2)"

definition ROOM_SIZE_Z_HALF :: real where
  "ROOM_SIZE_Z_HALF = ROOM_SIZE_Z * (1 / 2)"

definition DOLLY_MAX :: real where
  "DOLLY_MAX = max (max ROOM_SIZE_X ROOM_SIZE_Y) ROOM_SIZE_Z * 2"

definition DOLLY_MIN :: real where
  "DOLLY_MIN = CAMERA_ZNEAR"

definition LIGHT_OBJECT_LAUNCH_ANGLE :: real where
  "LIGHT_OBJECT_LAUNCH_ANGLE = 45"

definition LIGHT_OBJECT_RADIUS :: real where
  "LIGHT_OBJECT_RADIUS = 2"

definition LIGHT_OBJECT_SPEED :: real where
  "LIGHT_OBJECT_SPEED = 80"

definition LIGHT_RADIUS_MAX :: real where
  "LIGHT_RADIUS_MAX = max (max ROOM_SIZE_X ROOM_SIZE_Y) ROOM_SIZE_Z * (5 / 4)"

definition LIGHT_RADIUS_MIN :: real where
  "LIGHT_RADIUS_MIN = 0"

definition MAX_LIGHTS_SM20 :: int where
  "MAX_LIGHTS_SM20 = 2"

definition MAX_LIGHTS_SM30 :: int where
  "MAX_LIGHTS_SM30 = 8"

text \<open>\<^verbatim>\<open>RAND_MAX\<close> of the Windows C runtime (\<^verbatim>\<open><cstdlib>\<close>), the largest value of \<^verbatim>\<open>rand()\<close>.\<close>

definition RAND_MAX :: int where
  "RAND_MAX = 32767"

subsection \<open>Types\<close>

text \<open>
  \<^verbatim>\<open>D3DXVECTOR3\<close> and \<^verbatim>\<open>D3DXQUATERNION\<close> are plain structs of floats. The fields are
  called \<open>vx\<close>, \<open>vy\<close>, \<open>vz\<close> and \<open>qx\<close>, \<open>qy\<close>, \<open>qz\<close>, \<open>qw\<close> here (the source's
  \<^verbatim>\<open>x\<close>, \<^verbatim>\<open>y\<close>, \<^verbatim>\<open>z\<close>, \<^verbatim>\<open>w\<close>). The array \<^verbatim>\<open>float pos[3]\<close> of a light is read as a
  vector too: \<^verbatim>\<open>pos[0]\<close>, \<^verbatim>\<open>pos[1]\<close>, \<^verbatim>\<open>pos[2]\<close> are \<open>vx\<close>, \<open>vy\<close>, \<open>vz\<close>.
\<close>

record D3DXVECTOR3 =
  vx :: real
  vy :: real
  vz :: real

record D3DXQUATERNION =
  qx :: real
  qy :: real
  qz :: real
  qw :: real

type_synonym float4 = "real \<times> real \<times> real \<times> real"

record PointLight =
  pos :: D3DXVECTOR3
  ambient :: float4
  diffuse :: float4
  specular :: float4
  radius :: real
  velocity :: D3DXVECTOR3

subsection \<open>The point light\<close>

text \<open>
  \<^verbatim>\<open>PointLight::init\<close> calls \<^verbatim>\<open>rand()\<close> twice, first for the speed and then for the
  azimuth; the two draws are the arguments \<open>r1\<close> and \<open>r2\<close>. The locals \<^verbatim>\<open>rho\<close>,
  \<^verbatim>\<open>phi\<close> and \<^verbatim>\<open>theta\<close> are functions of their own.
\<close>

definition init_rho :: "int \<Rightarrow> real" where
  "init_rho r1 = LIGHT_OBJECT_SPEED + (1 / 2) * (LIGHT_OBJECT_SPEED * (real_of_int r1 / real_of_int RAND_MAX))"

definition init_phi :: real where
  "init_phi = LIGHT_OBJECT_LAUNCH_ANGLE * (D3DX_PI / 180)"

definition init_theta :: "int \<Rightarrow> real" where
  "init_theta r2 = (360 * (real_of_int r2 / real_of_int RAND_MAX)) * (D3DX_PI / 180)"

definition init :: "int \<Rightarrow> int \<Rightarrow> PointLight \<Rightarrow> PointLight" where
  "init r1 r2 l =
     (let rho = init_rho r1;
          phi = init_phi;
          theta = init_theta r2
      in l\<lparr>velocity :=
             \<lparr>vx = rho * cos phi * cos theta,
              vy = rho * sin phi,
              vz = rho * cos phi * sin theta\<rparr>\<rparr>)"

text \<open>
  \<^verbatim>\<open>PointLight::update\<close>: the move, then six tests in the order of the source, each on
  the moved position and on the velocity as the tests before it left it.
\<close>

definition update :: "real \<Rightarrow> PointLight \<Rightarrow> PointLight" where
  "update elapsedTimeSec l =
     (let p = \<lparr>vx = vx (pos l) + vx (velocity l) * elapsedTimeSec,
               vy = vy (pos l) + vy (velocity l) * elapsedTimeSec,
               vz = vz (pos l) + vz (velocity l) * elapsedTimeSec\<rparr>;
          v0 = velocity l;
          v1 = (if vx p > (ROOM_SIZE_X_HALF - LIGHT_OBJECT_RADIUS * 2)
                then v0\<lparr>vx := - vx v0\<rparr> else v0);
          v2 = (if vx p < - (ROOM_SIZE_X_HALF - LIGHT_OBJECT_RADIUS * 2)
                then v1\<lparr>vx := - vx v1\<rparr> else v1);
          v3 = (if vy p > (ROOM_SIZE_Y_HALF - LIGHT_OBJECT_RADIUS * 2)
                then v2\<lparr>vy := - vy v2\<rparr> else v2);
          v4 = (if vy p < - (ROOM_SIZE_Y_HALF - LIGHT_OBJECT_RADIUS * 2)
                then v3\<lparr>vy := - vy v3\<rparr> else v3);
          v5 = (if vz p > (ROOM_SIZE_Z_HALF - LIGHT_OBJECT_RADIUS * 2)
                then v4\<lparr>vz := - vz v4\<rparr> else v4);
          v6 = (if vz p < - (ROOM_SIZE_Z_HALF - LIGHT_OBJECT_RADIUS * 2)
                then v5\<lparr>vz := - vz v5\<rparr> else v5)
      in l\<lparr>pos := p, velocity := v6\<rparr>)"

text \<open>The flip test of one axis, as the claim words it: beyond the margin on either side.\<close>

definition crosses :: "real \<Rightarrow> real \<Rightarrow> bool" where
  "crosses half c = (c > half - 2 * LIGHT_OBJECT_RADIUS \<or> c < - (half - 2 * LIGHT_OBJECT_RADIUS))"

subsection \<open>Vectors, quaternions and the D3DX functions the camera code calls\<close>

text \<open>The arithmetic operators of \<^verbatim>\<open>D3DXVECTOR3\<close>: sum, difference, product with a scalar.\<close>

definition vec_add :: "D3DXVECTOR3 \<Rightarrow> D3DXVECTOR3 \<Rightarrow> D3DXVECTOR3" where
  "vec_add a b = \<lparr>vx = vx a + vx b, vy = vy a + vy b, vz = vz a + vz b\<rparr>"

definition vec_sub :: "D3DXVECTOR3 \<Rightarrow> D3DXVECTOR3 \<Rightarrow> D3DXVECTOR3" where
  "vec_sub a b = \<lparr>vx = vx a - vx b, vy = vy a - vy b, vz = vz a - vz b\<rparr>"

definition vec_scale :: "D3DXVECTOR3 \<Rightarrow> real \<Rightarrow> D3DXVECTOR3" where
  "vec_scale a k = \<lparr>vx = vx a * k, vy = vy a * k, vz = vz a * k\<rparr>"

text \<open>
  The next four functions belong to the D3DX library, which has no source in the
  repository. They are written from the library's documentation:
  \<^item> \<^verbatim>\<open>D3DXQuaternionNormalize\<close> divides a quaternion by its length;
  \<^item> \<^verbatim>\<open>D3DXQuaternionRotationAxis\<close> builds the quaternion of a rotation by an angle about
    an axis, which it normalises first;
  \<^item> \<^verbatim>\<open>D3DXQuaternionMultiply(out, q1, q2)\<close> is the rotation \<open>q1\<close> followed by the
    rotation \<open>q2\<close>;
  \<^item> \<^verbatim>\<open>D3DXMatrixRotationQuaternion\<close> builds the rotation matrix of a quaternion; only its
    upper left 3 x 3 block is read by the modelled code, as \<^verbatim>\<open>view(i, j)\<close>.
\<close>

definition D3DXQuaternionNormalize :: "D3DXQUATERNION \<Rightarrow> D3DXQUATERNION" where
  "D3DXQuaternionNormalize q =
     (let n = sqrt (qx q * qx q + qy q * qy q + qz q * qz q + qw q * qw q)
      in \<lparr>qx = qx q / n, qy = qy q / n, qz = qz q / n, qw = qw q / n\<rparr>)"

definition D3DXQuaternionRotationAxis :: "D3DXVECTOR3 \<Rightarrow> real \<Rightarrow> D3DXQUATERNION" where
  "D3DXQuaternionRotationAxis v angle =
     (let n = sqrt (vx v * vx v + vy v * vy v + vz v * vz v)
      in \<lparr>qx = sin (angle / 2) * (vx v / n),
          qy = sin (angle / 2) * (vy v / n),
          qz = sin (angle / 2) * (vz v / n),
          qw = cos (angle / 2)\<rparr>)"

definition D3DXQuaternionMultiply :: "D3DXQUATERNION \<Rightarrow> D3DXQUATERNION \<Rightarrow> D3DXQUATERNION" where
  "D3DXQuaternionMultiply q1 q2 =
     \<lparr>qx = qw q2 * qx q1 + qx q2 * qw q1 + qy q2 * qz q1 - qz q2 * qy q1,
      qy = qw q2 * qy q1 - qx q2 * qz q1 + qy q2 * qw q1 + qz q2 * qx q1,
      qz = qw q2 * qz q1 + qx q2 * qy q1 - qy q2 * qx q1 + qz q2 * qw q1,
      qw = qw q2 * qw q1 - qx q2 * qx q1 - qy q2 * qy q1 - qz q2 * qz q1\<rparr>"

definition D3DXMatrixRotationQuaternion :: "D3DXQUATERNION \<Rightarrow> nat \<Rightarrow> nat \<Rightarrow> real" where
  "D3DXMatrixRotationQuaternion q i j =
     (if i = 0 \<and> j = 0 then 1 - 2 * (qy q * qy q + qz q * qz q)
      else if i = 0 \<and> j = 1 then 2 * (qx q * qy q + qz q * qw q)
      else if i = 0 \<and> j = 2 then 2 * (qx q * qz q - qy q * qw q)
      else if i = 1 \<and> j = 0 then 2 * (qx q * qy q - qz q * qw q)
      else if i = 1 \<and> j = 1 then 1 - 2 * (qx q * qx q + qz q * qz q)
      else if i = 1 \<and> j = 2 then 2 * (qy q * qz q + qx q * qw q)
      else if i = 2 \<and> j = 0 then 2 * (qx q * qz q + qy q * qw q)
      else if i = 2 \<and> j = 1 then 2 * (qy q * qz q - qx q * qw q)
      else if i = 2 \<and> j = 2 then 1 - 2 * (qx q * qx q + qy q * qy q)
      else if i = j then 1 else 0)"

subsection \<open>Program state\<close>

text \<open>
  \<^verbatim>\<open>struct Camera\<close>. The field \<^verbatim>\<open>pos\<close> is called \<open>cpos\<close> (the light has a \<open>pos\<close> too).
  The field \<^verbatim>\<open>viewProjectionMatrix\<close> is written by \<^verbatim>\<open>UpdateEffects\<close> and read only by the
  draw calls; it is not part of the model.
\<close>

record Camera =
  pitch :: real
  offset :: real
  xAxis :: D3DXVECTOR3
  yAxis :: D3DXVECTOR3
  zAxis :: D3DXVECTOR3
  cpos :: D3DXVECTOR3
  target :: D3DXVECTOR3
  orientation :: D3DXQUATERNION

datatype CameraMode = CAMERA_NONE | CAMERA_TRACK | CAMERA_DOLLY | CAMERA_ORBIT

text \<open>The Win32 \<^verbatim>\<open>POINT\<close>, with fields \<open>px\<close> and \<open>py\<close> for \<^verbatim>\<open>x\<close> and \<^verbatim>\<open>y\<close>.\<close>

record POINT =
  px :: int
  py :: int

text \<open>
  The three effect pointers are compared with each other only; the model keeps which
  effect \<^verbatim>\<open>g_pBlinnPhongEffect\<close> points to, and \<open>None\<close> for the null pointer it holds
  before \<^verbatim>\<open>InitApp\<close>.
\<close>

datatype Effect = BlinnPhongEffectSM20 | BlinnPhongEffectSM30

text \<open>
  The globals of the program that the lights, the camera, the input mapper and the
  technique selection read or write, and the statics of \<^verbatim>\<open>ProcessMouseInput\<close> that
  live across calls (\<open>cameraMode\<close>, \<open>ptMousePrev\<close>, \<open>mouseButtonsDown\<close>; its other
  statics are assigned before every use). Window, device and resource globals are left
  out.
\<close>

record app =
  g_displayHelp :: bool
  g_disableColorMapTexture :: bool
  g_animateLights :: bool
  g_renderLights :: bool
  g_enableMultipassLighting :: bool
  g_supportsShaderModel30 :: bool
  g_pBlinnPhongEffect :: "Effect option"
  g_numLights :: int
  g_camera :: Camera
  g_lights :: "PointLight list"
  cameraMode :: CameraMode
  ptMousePrev :: POINT
  mouseButtonsDown :: int

definition zero3 :: D3DXVECTOR3 where
  "zero3 = \<lparr>vx = 0, vy = 0, vz = 0\<rparr>"

text \<open>
  An entry of the initialiser of \<^verbatim>\<open>g_lights\<close>: every light starts at the origin, at
  rest, with radius 100 and with one colour for its ambient, diffuse and specular terms.
\<close>

definition static_light :: "float4 \<Rightarrow> PointLight" where
  "static_light c =
     \<lparr>pos = zero3, ambient = c, diffuse = c, specular = c, radius = 100, velocity = zero3\<rparr>"

definition g_lights_initial :: "PointLight list" where
  "g_lights_initial =
     [static_light (1, 1, 1, 1),
      static_light (1, 0, 0, 1),
      static_light (0, 1, 0, 1),
      static_light (0, 0, 1, 1),
      static_light (1, 1, 0, 1),
      static_light (0, 1, 1, 1),
      static_light (1, 0, 1, 1),
      static_light (100 / 255, 149 / 255, 237 / 255, 1)]"

definition g_camera_initial :: Camera where
  "g_camera_initial =
     \<lparr>pitch = 0,
      offset = ROOM_SIZE_Z,
      xAxis = \<lparr>vx = 1, vy = 0, vz = 0\<rparr>,
      yAxis = \<lparr>vx = 0, vy = 1, vz = 0\<rparr>,
      zAxis = \<lparr>vx = 0, vy = 0, vz = 1\<rparr>,
      cpos = zero3,
      target = zero3,
      orientation = \<lparr>qx = 0, qy = 0, qz = 0, qw = 1\<rparr>\<rparr>"

text \<open>The state at program start: the initialisers of the source, zero where it gives none.\<close>

definition g_initial :: app where
  "g_initial =
     \<lparr>g_displayHelp = False,
      g_disableColorMapTexture = False,
      g_animateLights = True,
      g_renderLights = True,
      g_enableMultipassLighting = False,
      g_supportsShaderModel30 = False,
      g_pBlinnPhongEffect = None,
      g_numLights = 0,
      g_camera = g_camera_initial,
      g_lights = g_lights_initial,
      cameraMode = CAMERA_NONE,
      ptMousePrev = \<lparr>px = 0, py = 0\<rparr>,
      mouseButtonsDown = 0\<rparr>"

subsection \<open>Initialisation\<close>

text \<open>The version macros of \<^verbatim>\<open>d3d9caps.h\<close>.\<close>

definition D3DVS_VERSION :: "32 word \<Rightarrow> 32 word \<Rightarrow> 32 word" where
  "D3DVS_VERSION major minor = 0xFFFE0000 OR push_bit 8 major OR minor"

definition D3DPS_VERSION :: "32 word \<Rightarrow> 32 word \<Rightarrow> 32 word" where
  "D3DPS_VERSION major minor = 0xFFFF0000 OR push_bit 8 major OR minor"

datatype error = runtime_error string

text \<open>
  What \<^verbatim>\<open>InitApp\<close> gets from outside: the shader versions in \<^verbatim>\<open>g_caps\<close>, whether each
  resource loads, and the values that the calls of \<^verbatim>\<open>rand()\<close> return, in order, after
  \<^verbatim>\<open>srand\<close>.
\<close>

record InitEnv =
  VertexShaderVersion :: "32 word"
  PixelShaderVersion :: "32 word"
  font_ok :: bool
  ambient_fx_ok :: bool
  blinn_phong_sm20_fx_ok :: bool
  blinn_phong_sm30_fx_ok :: bool
  null_texture_ok :: bool
  wall_texture_ok :: bool
  ceiling_texture_ok :: bool
  floor_texture_ok :: bool
  light_mesh_ok :: bool
  rand_values :: "nat \<Rightarrow> int"

text \<open>
  The last loop of \<^verbatim>\<open>InitApp\<close>: \<^verbatim>\<open>for (i = 0; i < g_numLights; ++i) g_lights[i].init()\<close>.
  Light \<open>i\<close> takes the draws \<open>2 i\<close> and \<open>2 i + 1\<close>. The source indexes the array
  without a check; the model stops at its end.
\<close>

function init_lights :: "(nat \<Rightarrow> int) \<Rightarrow> nat \<Rightarrow> nat \<Rightarrow> PointLight list \<Rightarrow> PointLight list" where
  "init_lights rnd i n ls =
     (if i < n \<and> i < length ls
      then init_lights rnd (i + 1) n (ls[i := init (rnd (2 * i)) (rnd (2 * i + 1)) (ls ! i)])
      else ls)"
  by pat_completeness auto
termination
  by (relation "measure (\<lambda>(rnd, i, n, ls). n - i)") auto

declare init_lights.simps [simp del]

text \<open>The shader model test at the head of \<^verbatim>\<open>InitApp\<close>: the value for
  \<^verbatim>\<open>g_supportsShaderModel30\<close>, or the exception.\<close>

definition detect_shader_model :: "32 word \<Rightarrow> 32 word \<Rightarrow> error + bool" where
  "detect_shader_model dwVSVersion dwPSVersion =
     (if dwVSVersion \<ge> D3DVS_VERSION 3 0 \<and> dwPSVersion \<ge> D3DPS_VERSION 3 0 then Inr True
      else if dwVSVersion \<ge> D3DVS_VERSION 2 0 \<and> dwPSVersion \<ge> D3DPS_VERSION 2 0 then Inr False
      else Inl (runtime_error ''Shader model 2.0 or higher is required.''))"

definition InitApp :: "InitEnv \<Rightarrow> app \<Rightarrow> error + app" where
  "InitApp env s =
     (case detect_shader_model (VertexShaderVersion env) (PixelShaderVersion env) of
        Inl e \<Rightarrow> Inl e
      | Inr sm30 \<Rightarrow>
          let s1 = s\<lparr>g_supportsShaderModel30 := sm30\<rparr>
          in if \<not> font_ok env then Inl (runtime_error ''Failed to create font.'')
             else if \<not> ambient_fx_ok env
               then Inl (runtime_error ''Failed to load shader: ambient.fx.'')
             else if \<not> blinn_phong_sm20_fx_ok env
               then Inl (runtime_error ''Failed to load shader: blinn_phong_sm20.fx.'')
             else if g_supportsShaderModel30 s1 \<and> \<not> blinn_phong_sm30_fx_ok env
               then Inl (runtime_error ''Failed to load shader: blinn_phong_sm30.fx.'')
             else
               let s2 = (if g_supportsShaderModel30 s1
                         then s1\<lparr>g_pBlinnPhongEffect := Some BlinnPhongEffectSM30,
                                 g_numLights := MAX_LIGHTS_SM30\<rparr>
                         else s1\<lparr>g_pBlinnPhongEffect := Some BlinnPhongEffectSM20,
                                 g_numLights := MAX_LIGHTS_SM20\<rparr>)
               in if \<not> null_texture_ok env
                    then Inl (runtime_error ''Failed to create null texture.'')
                  else if \<not> wall_texture_ok env
                    then Inl (runtime_error ''Failed to load texture: brick_color_map.jpg.'')
                  else if \<not> ceiling_texture_ok env
                    then Inl (runtime_error ''Failed to load texture: wood_color_map.jpg.'')
                  else if \<not> floor_texture_ok env
                    then Inl (runtime_error ''Failed to load texture: stone_color_map.jpg.'')
                  else if \<not> light_mesh_ok env
                    then Inl (runtime_error ''Failed to create the point light mesh.'')
                  else Inr (s2\<lparr>g_lights :=
                                  init_lights (rand_values env) 0 (nat (g_numLights s2)) (g_lights s2)\<rparr>))"

subsection \<open>Window messages\<close>

text \<open>
  The message identifiers that \<^verbatim>\<open>WindowProc\<close> and \<^verbatim>\<open>ProcessMouseInput\<close> tell apart and
  whose handlers touch the modelled state. \<open>WM_OTHER\<close> stands for every other message
  (\<^verbatim>\<open>WM_ACTIVATE\<close>, \<^verbatim>\<open>WM_DESTROY\<close>, \<^verbatim>\<open>WM_SIZE\<close>, \<^verbatim>\<open>WM_SYSKEYDOWN\<close> and the default
  branches): their handlers write window and device globals only.
\<close>

datatype message =
    WM_CHAR
  | WM_LBUTTONDOWN | WM_RBUTTONDOWN | WM_MBUTTONDOWN
  | WM_MOUSEMOVE
  | WM_LBUTTONUP | WM_RBUTTONUP | WM_MBUTTONUP
  | WM_MOUSEWHEEL
  | WM_OTHER

text \<open>Constants and macros of \<^verbatim>\<open>windows.h\<close>.\<close>

definition MK_LBUTTON :: "32 word" where
  "MK_LBUTTON = 0x0001"

definition MK_RBUTTON :: "32 word" where
  "MK_RBUTTON = 0x0002"

definition MK_MBUTTON :: "32 word" where
  "MK_MBUTTON = 0x0010"

definition VK_ESCAPE :: int where
  "VK_ESCAPE = 0x1B"

definition VK_SPACE :: int where
  "VK_SPACE = 0x20"

definition LOWORD :: "32 word \<Rightarrow> 16 word" where
  "LOWORD l = ucast (l AND 0xffff)"

definition HIWORD :: "32 word \<Rightarrow> 16 word" where
  "HIWORD l = ucast (drop_bit 16 l AND 0xffff)"

text \<open>
  The pointer position of a mouse message:
  \<^verbatim>\<open>static_cast<int>(static_cast<short>(LOWORD(lParam)))\<close> and the same of \<^verbatim>\<open>HIWORD\<close>.
\<close>

definition lParam_point :: "32 word \<Rightarrow> POINT" where
  "lParam_point lParam = \<lparr>px = sint (LOWORD lParam), py = sint (HIWORD lParam)\<rparr>"

text \<open>
  \<^verbatim>\<open>ClientToScreen\<close> of Win32 adds the screen position of the window's client area, which
  the model takes as the argument \<open>origin\<close> of every message.
\<close>

definition ClientToScreen :: "POINT \<Rightarrow> POINT \<Rightarrow> POINT" where
  "ClientToScreen origin pt = \<lparr>px = px pt + px origin, py = py pt + py origin\<rparr>"

subsection \<open>The input mapper: \<^verbatim>\<open>ProcessMouseInput\<close>\<close>

text \<open>The three button-down cases differ in the mode they set.\<close>

definition button_down :: "CameraMode \<Rightarrow> POINT \<Rightarrow> 32 word \<Rightarrow> app \<Rightarrow> app" where
  "button_down m origin lParam s =
     s\<lparr>cameraMode := m,
       mouseButtonsDown := mouseButtonsDown s + 1,
       ptMousePrev := ClientToScreen origin (lParam_point lParam)\<rparr>"

text \<open>\<^verbatim>\<open>case CAMERA_TRACK\<close> of the pointer move.\<close>

definition camera_track :: "POINT \<Rightarrow> POINT \<Rightarrow> Camera \<Rightarrow> Camera" where
  "camera_track ptPrev ptCurrent c =
     (let dx = real_of_int (px ptCurrent - px ptPrev) * MOUSE_TRACK_SPEED;
          dy = real_of_int (py ptCurrent - py ptPrev) * MOUSE_TRACK_SPEED;
          c1 = c\<lparr>target := vec_sub (target c) (vec_scale (xAxis c) dx)\<rparr>
      in c1\<lparr>target := vec_add (target c1) (vec_scale (yAxis c1) dy)\<rparr>)"

text \<open>The two tests that follow every change of \<^verbatim>\<open>g_camera.offset\<close>.\<close>

definition clamp_offset :: "Camera \<Rightarrow> Camera" where
  "clamp_offset c =
     (let c1 = (if offset c > DOLLY_MAX then c\<lparr>offset := DOLLY_MAX\<rparr> else c)
      in if offset c1 < DOLLY_MIN then c1\<lparr>offset := DOLLY_MIN\<rparr> else c1)"

text \<open>\<^verbatim>\<open>case CAMERA_DOLLY\<close> of the pointer move.\<close>

definition camera_dolly :: "POINT \<Rightarrow> POINT \<Rightarrow> Camera \<Rightarrow> Camera" where
  "camera_dolly ptPrev ptCurrent c =
     (let dy = real_of_int (py ptPrev - py ptCurrent) * MOUSE_DOLLY_SPEED
      in clamp_offset (c\<lparr>offset := offset c - dy\<rparr>))"

text \<open>
  \<^verbatim>\<open>case CAMERA_ORBIT\<close> of the pointer move, in three parts. First the pitch: the
  function returns the new pitch and the value that \<^verbatim>\<open>dy\<close> holds after the two tests.
\<close>

definition orbit_pitch :: "real \<Rightarrow> real \<Rightarrow> real \<times> real" where
  "orbit_pitch pitch0 dy0 =
     (let pitch1 = pitch0 + dy0;
          (dy1, pitch2) = (if pitch1 > 90 then (90 - (pitch1 - dy0), 90) else (dy0, pitch1));
          (dy2, pitch3) = (if pitch2 < - 90 then (- 90 - (pitch2 - dy1), - 90) else (dy1, pitch2))
      in (pitch3, dy2))"

text \<open>Then the two rotations, about the static axes \<^verbatim>\<open>yAxis\<close> and \<^verbatim>\<open>xAxis\<close> of the function.\<close>

definition world_yAxis :: D3DXVECTOR3 where
  "world_yAxis = \<lparr>vx = 0, vy = 1, vz = 0\<rparr>"

definition local_xAxis :: D3DXVECTOR3 where
  "local_xAxis = \<lparr>vx = 1, vy = 0, vz = 0\<rparr>"

definition orbit_rotate :: "real \<Rightarrow> real \<Rightarrow> D3DXQUATERNION \<Rightarrow> D3DXQUATERNION" where
  "orbit_rotate dx dy q =
     (let q1 = (if dx \<noteq> 0
                then D3DXQuaternionMultiply (D3DXQuaternionRotationAxis world_yAxis dx) q
                else q)
      in if dy \<noteq> 0
         then D3DXQuaternionMultiply q1 (D3DXQuaternionRotationAxis local_xAxis dy)
         else q1)"

definition camera_orbit :: "POINT \<Rightarrow> POINT \<Rightarrow> Camera \<Rightarrow> Camera" where
  "camera_orbit ptPrev ptCurrent c =
     (let dx = real_of_int (px ptPrev - px ptCurrent) * MOUSE_ORBIT_SPEED;
          dy = real_of_int (py ptPrev - py ptCurrent) * MOUSE_ORBIT_SPEED;
          (pitch', dy') = orbit_pitch (pitch c) dy
      in c\<lparr>pitch := pitch',
            orientation := orbit_rotate (D3DXToRadian dx) (D3DXToRadian dy') (orientation c)\<rparr>)"

text \<open>The three button-up cases share one body.\<close>

definition button_up :: "32 word \<Rightarrow> app \<Rightarrow> app" where
  "button_up wParam s =
     (if mouseButtonsDown s - 1 \<le> 0
      then s\<lparr>mouseButtonsDown := 0, cameraMode := CAMERA_NONE\<rparr>
      else
        let s1 = s\<lparr>mouseButtonsDown := mouseButtonsDown s - 1\<rparr>
        in if wParam AND MK_LBUTTON \<noteq> 0 then s1\<lparr>cameraMode := CAMERA_TRACK\<rparr>
           else if wParam AND MK_RBUTTON \<noteq> 0 then s1\<lparr>cameraMode := CAMERA_ORBIT\<rparr>
           else if wParam AND MK_MBUTTON \<noteq> 0 then s1\<lparr>cameraMode := CAMERA_DOLLY\<rparr>
           else s1)"

text \<open>
  \<^verbatim>\<open>case WM_MOUSEWHEEL\<close>: \<^verbatim>\<open>static_cast<int>(wParam) >> 16\<close> is the signed high half of
  the word.
\<close>

definition mouse_wheel :: "32 word \<Rightarrow> Camera \<Rightarrow> Camera" where
  "mouse_wheel wParam c =
     (let wheelDelta = real_of_int (sint wParam div 65536)
      in clamp_offset (c\<lparr>offset := offset c - wheelDelta * MOUSE_WHEEL_DOLLY_SPEED\<rparr>))"

definition ProcessMouseInput :: "POINT \<Rightarrow> message \<Rightarrow> 32 word \<Rightarrow> 32 word \<Rightarrow> app \<Rightarrow> app" where
  "ProcessMouseInput origin msg wParam lParam s =
     (case msg of
        WM_LBUTTONDOWN \<Rightarrow> button_down CAMERA_TRACK origin lParam s
      | WM_RBUTTONDOWN \<Rightarrow> button_down CAMERA_ORBIT origin lParam s
      | WM_MBUTTONDOWN \<Rightarrow> button_down CAMERA_DOLLY origin lParam s
      | WM_MOUSEMOVE \<Rightarrow>
          let ptMouseCurrent = ClientToScreen origin (lParam_point lParam);
              c = g_camera s;
              c' = (case cameraMode s of
                      CAMERA_TRACK \<Rightarrow> camera_track (ptMousePrev s) ptMouseCurrent c
                    | CAMERA_DOLLY \<Rightarrow> camera_dolly (ptMousePrev s) ptMouseCurrent c
                    | CAMERA_ORBIT \<Rightarrow> camera_orbit (ptMousePrev s) ptMouseCurrent c
                    | CAMERA_NONE \<Rightarrow> c)
          in s\<lparr>g_camera := c', ptMousePrev := ptMouseCurrent\<rparr>
      | WM_LBUTTONUP \<Rightarrow> button_up wParam s
      | WM_RBUTTONUP \<Rightarrow> button_up wParam s
      | WM_MBUTTONUP \<Rightarrow> button_up wParam s
      | WM_MOUSEWHEEL \<Rightarrow> s\<lparr>g_camera := mouse_wheel wParam (g_camera s)\<rparr>
      | _ \<Rightarrow> s)"

subsection \<open>Keys: \<^verbatim>\<open>case WM_CHAR\<close> of \<^verbatim>\<open>WindowProc\<close>\<close>

text \<open>The bodies of the two radius loops, which run over the whole of \<^verbatim>\<open>g_lights\<close>.\<close>

definition radius_up :: "PointLight \<Rightarrow> PointLight" where
  "radius_up l =
     (let l1 = l\<lparr>radius := radius l + 1\<rparr>
      in if radius l1 > LIGHT_RADIUS_MAX then l1\<lparr>radius := LIGHT_RADIUS_MAX\<rparr> else l1)"

definition radius_down :: "PointLight \<Rightarrow> PointLight" where
  "radius_down l =
     (let l1 = l\<lparr>radius := radius l - 1\<rparr>
      in if radius l1 < LIGHT_RADIUS_MIN then l1\<lparr>radius := LIGHT_RADIUS_MIN\<rparr> else l1)"

text \<open>
  The key is \<^verbatim>\<open>static_cast<int>(wParam)\<close>, compared with character codes:
  \<open>+\<close> 43, \<open>=\<close> 61, \<open>-\<close> 45, \<open>h\<close> 104, \<open>H\<close> 72, \<open>l\<close> 108, \<open>L\<close> 76, \<open>m\<close> 109, \<open>M\<close> 77,
  \<open>s\<close> 115, \<open>S\<close> 83, \<open>T\<close> 84, \<open>t\<close> 116. Escape posts \<^verbatim>\<open>WM_CLOSE\<close> and changes nothing
  by itself.
\<close>

definition on_char :: "32 word \<Rightarrow> app \<Rightarrow> app" where
  "on_char wParam s =
     (let k = sint wParam
      in if k = VK_ESCAPE then s
         else if k = VK_SPACE then s\<lparr>g_animateLights := \<not> g_animateLights s\<rparr>
         else if k = 43 \<or> k = 61 then s\<lparr>g_lights := map radius_up (g_lights s)\<rparr>
         else if k = 45 then s\<lparr>g_lights := map radius_down (g_lights s)\<rparr>
         else if k = 104 \<or> k = 72 then s\<lparr>g_displayHelp := \<not> g_displayHelp s\<rparr>
         else if k = 108 \<or> k = 76 then s\<lparr>g_renderLights := \<not> g_renderLights s\<rparr>
         else if k = 109 \<or> k = 77 then
           (if g_pBlinnPhongEffect s = Some BlinnPhongEffectSM20
            then s\<lparr>g_enableMultipassLighting := \<not> g_enableMultipassLighting s\<rparr> else s)
         else if k = 115 \<or> k = 83 then
           (if g_supportsShaderModel30 s
            then (if g_pBlinnPhongEffect s = Some BlinnPhongEffectSM20
                  then s\<lparr>g_pBlinnPhongEffect := Some BlinnPhongEffectSM30,
                         g_numLights := MAX_LIGHTS_SM30\<rparr>
                  else s\<lparr>g_pBlinnPhongEffect := Some BlinnPhongEffectSM20,
                         g_numLights := MAX_LIGHTS_SM20\<rparr>)
            else s)
         else if k = 84 \<or> k = 116
           then s\<lparr>g_disableColorMapTexture := \<not> g_disableColorMapTexture s\<rparr>
         else s)"

definition WindowProc :: "POINT \<Rightarrow> message \<Rightarrow> 32 word \<Rightarrow> 32 word \<Rightarrow> app \<Rightarrow> app" where
  "WindowProc origin msg wParam lParam s =
     (case msg of
        WM_CHAR \<Rightarrow> on_char wParam s
      | _ \<Rightarrow> ProcessMouseInput origin msg wParam lParam s)"

subsection \<open>The frame: \<^verbatim>\<open>UpdateFrame\<close>\<close>

definition UpdateLights :: "real \<Rightarrow> app \<Rightarrow> app" where
  "UpdateLights elapsedTimeSec s = s\<lparr>g_lights := map (update elapsedTimeSec) (g_lights s)\<rparr>"

text \<open>
  The camera part of \<^verbatim>\<open>UpdateEffects\<close>: orientation, axes and position. The view and
  projection matrices and the shader parameters it goes on to set are outputs to the
  renderer.
\<close>

definition rebuild_camera :: "Camera \<Rightarrow> Camera" where
  "rebuild_camera c =
     (let q = D3DXQuaternionNormalize (orientation c);
          view = D3DXMatrixRotationQuaternion q;
          c1 = c\<lparr>orientation := q,
                 xAxis := \<lparr>vx = view 0 0, vy = view 1 0, vz = view 2 0\<rparr>,
                 yAxis := \<lparr>vx = view 0 1, vy = view 1 1, vz = view 2 1\<rparr>,
                 zAxis := \<lparr>vx = view 0 2, vy = view 1 2, vz = view 2 2\<rparr>\<rparr>
      in c1\<lparr>cpos := vec_add (target c1) (vec_scale (zAxis c1) (- offset c1))\<rparr>)"

definition UpdateEffects :: "app \<Rightarrow> app" where
  "UpdateEffects s = s\<lparr>g_camera := rebuild_camera (g_camera s)\<rparr>"

text \<open>\<^verbatim>\<open>UpdateFrameRate\<close>, the first call of \<^verbatim>\<open>UpdateFrame\<close>, only counts frames for the overlay.\<close>

definition UpdateFrame :: "real \<Rightarrow> app \<Rightarrow> app" where
  "UpdateFrame elapsedTimeSec s =
     UpdateEffects (if g_animateLights s then UpdateLights elapsedTimeSec s else s)"

subsection \<open>Runs of the program\<close>

text \<open>
  After \<^verbatim>\<open>InitApp\<close> the main loop alternates between dispatching messages to
  \<^verbatim>\<open>WindowProc\<close> and calling \<^verbatim>\<open>UpdateFrame\<close>. A run is a list of such events, in the
  order they happen; the states a run passes through are the results of its prefixes.
  The elapsed time of a frame is any number here.
\<close>

datatype event = Message POINT message "32 word" "32 word" | Frame real

fun step :: "event \<Rightarrow> app \<Rightarrow> app" where
  "step (Message origin msg wParam lParam) s = WindowProc origin msg wParam lParam s"
| "step (Frame elapsedTimeSec) s = UpdateFrame elapsedTimeSec s"

definition run :: "event list \<Rightarrow> app \<Rightarrow> app" where
  "run evs s = fold step evs s"

subsection \<open>The frame timer: \<^verbatim>\<open>GetElapsedTimeInSeconds\<close>\<close>

definition MAX_SAMPLE_COUNT :: nat where
  "MAX_SAMPLE_COUNT = 50"

text \<open>
  The statics of the function. \<open>sampleCount\<close> is an \<^verbatim>\<open>int\<close> that the code only
  increments from zero, a \<^typ>\<open>nat\<close> here. The array \<^verbatim>\<open>frameTimes\<close> is a list of
  \<open>MAX_SAMPLE_COUNT\<close> numbers.
\<close>

record FrameTimer =
  frameTimes :: "real list"
  timeScale :: real
  actualElapsedTimeSec :: real
  freq :: int
  lastTime :: int
  sampleCount :: nat
  initialized :: bool

definition timer_initial :: FrameTimer where
  "timer_initial =
     \<lparr>frameTimes = replicate MAX_SAMPLE_COUNT 0,
      timeScale = 0,
      actualElapsedTimeSec = 0,
      freq = 0,
      lastTime = 0,
      sampleCount = 0,
      initialized = False\<rparr>"

text \<open>
  What one call reads from the system: the value of \<^verbatim>\<open>QueryPerformanceFrequency\<close>, the
  value of \<^verbatim>\<open>QueryPerformanceCounter\<close> in the first-call branch, and the value of
  \<^verbatim>\<open>QueryPerformanceCounter\<close> that every call reads.
\<close>

record Clock =
  frequency :: int
  counter_at_init :: int
  counter :: int

text \<open>The first-call branch.\<close>

definition timer_setup :: "Clock \<Rightarrow> FrameTimer \<Rightarrow> FrameTimer" where
  "timer_setup clk t =
     (if \<not> initialized t
      then t\<lparr>initialized := True,
             freq := frequency clk,
             lastTime := counter_at_init clk,
             timeScale := 1 / real_of_int (frequency clk)\<rparr>
      else t)"

text \<open>The local \<^verbatim>\<open>elapsedTimeSec\<close>: the raw time since the call before.\<close>

definition raw_elapsed :: "Clock \<Rightarrow> FrameTimer \<Rightarrow> real" where
  "raw_elapsed clk t =
     (let t1 = timer_setup clk t
      in real_of_int (counter clk - lastTime t1) * timeScale t1)"

text \<open>
  \<^verbatim>\<open>memmove(&frameTimes[1], frameTimes, sizeof(frameTimes) - sizeof(frameTimes[0]))\<close>
  and \<^verbatim>\<open>frameTimes[0] = elapsedTimeSec\<close>: every entry moves up by one, the last one is
  dropped, the new one is first.
\<close>

definition push_sample :: "real \<Rightarrow> real list \<Rightarrow> real list" where
  "push_sample elapsedTimeSec ft = elapsedTimeSec # take (MAX_SAMPLE_COUNT - 1) ft"

text \<open>The summing loop \<^verbatim>\<open>for (i = 0; i < sampleCount; ++i) actual += frameTimes[i]\<close>.\<close>

function sum_samples :: "real list \<Rightarrow> nat \<Rightarrow> nat \<Rightarrow> real \<Rightarrow> real" where
  "sum_samples ft i n acc =
     (if i < n then sum_samples ft (i + 1) n (acc + ft ! i) else acc)"
  by pat_completeness auto
termination
  by (relation "measure (\<lambda>(ft, i, n, acc). n - i)") auto

declare sum_samples.simps [simp del]

definition GetElapsedTimeInSeconds :: "Clock \<Rightarrow> FrameTimer \<Rightarrow> real \<times> FrameTimer" where
  "GetElapsedTimeInSeconds clk t =
     (let t1 = timer_setup clk t;
          elapsedTimeSec = real_of_int (counter clk - lastTime t1) * timeScale t1;
          t2 = t1\<lparr>lastTime := counter clk\<rparr>;
          t3 = (if \<bar>elapsedTimeSec - actualElapsedTimeSec t2\<bar> < 1
                then t2\<lparr>frameTimes := push_sample elapsedTimeSec (frameTimes t2),
                        sampleCount := (if sampleCount t2 < MAX_SAMPLE_COUNT
                                        then sampleCount t2 + 1 else sampleCount t2)\<rparr>
                else t2);
          total = sum_samples (frameTimes t3) 0 (sampleCount t3) 0;
          t4 = t3\<lparr>actualElapsedTimeSec :=
                     (if sampleCount t3 > 0 then total / real (sampleCount t3) else total)\<rparr>
      in (actualElapsedTimeSec t4, t4))"

text \<open>The timer after a list of calls, one clock reading each.\<close>

definition timer_run :: "Clock list \<Rightarrow> FrameTimer \<Rightarrow> FrameTimer" where
  "timer_run clks t = fold (\<lambda>clk t'. snd (GetElapsedTimeInSeconds clk t')) clks t"

text \<open>
  The samples the timer holds: the first \<open>sampleCount\<close> entries of \<open>frameTimes\<close>,
  newest first. Their mean is zero when there is none.
\<close>

definition retained :: "FrameTimer \<Rightarrow> real list" where
  "retained t = take (sampleCount t) (frameTimes t)"

definition mean :: "real list \<Rightarrow> real" where
  "mean xs = (if xs = [] then 0 else sum_list xs / real (length xs))"

subsection \<open>Concrete inputs\<close>

text \<open>
  Two environments in which \<^verbatim>\<open>InitApp\<close> succeeds, used where a property is instantiated
  at a concrete run: a device with shader model 2.0 only, and one with shader model 3.0.
  Every resource loads and every draw of \<^verbatim>\<open>rand()\<close> is 0.
\<close>

definition env_sm20 :: InitEnv where
  "env_sm20 =
     \<lparr>VertexShaderVersion = 0xFFFE0200,
      PixelShaderVersion = 0xFFFF0200,
      font_ok = True,
      ambient_fx_ok = True,
      blinn_phong_sm20_fx_ok = True,
      blinn_phong_sm30_fx_ok = True,
      null_texture_ok = True,
      wall_texture_ok = True,
      ceiling_texture_ok = True,
      floor_texture_ok = True,
      light_mesh_ok = True,
      rand_values = (\<lambda>k. 0)\<rparr>"

definition env_sm30 :: InitEnv where
  "env_sm30 = env_sm20\<lparr>VertexShaderVersion := 0xFFFE0300, PixelShaderVersion := 0xFFFF0300\<rparr>"

subsection \<open>Invariants and notions used in the properties\<close>

text \<open>The camera invariant of the input mapper: pitch and dolly offset within their bounds.\<close>

definition camera_ok :: "Camera \<Rightarrow> bool" where
  "camera_ok c =
     (- 90 \<le> pitch c \<and> pitch c \<le> 90 \<and> DOLLY_MIN \<le> offset c \<and> offset c \<le> DOLLY_MAX)"

text \<open>The identity rotation.\<close>

definition quat_identity :: D3DXQUATERNION where
  "quat_identity = \<lparr>qx = 0, qy = 0, qz = 0, qw = 1\<rparr>"

text \<open>The radii of all lights of the collection, in order.\<close>

definition radii :: "app \<Rightarrow> real list" where
  "radii s = map radius (g_lights s)"

text \<open>The largest number of lights of a shader tier.\<close>

definition tier_max :: "Effect \<Rightarrow> int" where
  "tier_max e = (case e of BlinnPhongEffectSM20 \<Rightarrow> MAX_LIGHTS_SM20 | BlinnPhongEffectSM30 \<Rightarrow> MAX_LIGHTS_SM30)"

text \<open>A radius brought back into the interval from \<open>LIGHT_RADIUS_MIN\<close> to \<open>LIGHT_RADIUS_MAX\<close>.\<close>

definition clamp_radius :: "real \<Rightarrow> real" where
  "clamp_radius r = max LIGHT_RADIUS_MIN (min LIGHT_RADIUS_MAX r)"

text \<open>
  The invariant of the technique selection: the support flag has the value \<open>b\<close>, and
  the selected effect and the light count belong together; the higher tier is selected
  only when it is supported.
\<close>

definition tech_ok :: "bool \<Rightarrow> app \<Rightarrow> bool" where
  "tech_ok b s =
     (g_supportsShaderModel30 s = b
      \<and> (g_pBlinnPhongEffect s = Some BlinnPhongEffectSM20 \<and> g_numLights s = MAX_LIGHTS_SM20
         \<or> b \<and> g_pBlinnPhongEffect s = Some BlinnPhongEffectSM30 \<and> g_numLights s = MAX_LIGHTS_SM30))"

text \<open>The shape of the timer's statics: a full array and a count that fits it.\<close>

definition timer_ok :: "FrameTimer \<Rightarrow> bool" where
  "timer_ok t = (length (frameTimes t) = MAX_SAMPLE_COUNT \<and> sampleCount t \<le> MAX_SAMPLE_COUNT)"

section \<open>Properties\<close>

subsection \<open>The point light\<close>

lemmas room_consts =
  ROOM_SIZE_X_def ROOM_SIZE_Y_def ROOM_SIZE_Z_def
  ROOM_SIZE_X_HALF_def ROOM_SIZE_Y_HALF_def ROOM_SIZE_Z_HALF_def
  LIGHT_OBJECT_RADIUS_def

lemma update_pos:
  "pos (update dt l) =
     \<lparr>vx = vx (pos l) + vx (velocity l) * dt,
      vy = vy (pos l) + vy (velocity l) * dt,
      vz = vz (pos l) + vz (velocity l) * dt\<rparr>"
  by (simp add: update_def Let_def)

lemma update_radius: "radius (update dt l) = radius l"
  by (simp add: update_def Let_def)

lemma update_vx:
  "vx (velocity (update dt l)) =
     (if crosses ROOM_SIZE_X_HALF (vx (pos l) + vx (velocity l) * dt)
      then - vx (velocity l) else vx (velocity l))"
  by (simp add: update_def Let_def crosses_def room_consts)

lemma update_vy:
  "vy (velocity (update dt l)) =
     (if crosses ROOM_SIZE_Y_HALF (vy (pos l) + vy (velocity l) * dt)
      then - vy (velocity l) else vy (velocity l))"
  by (simp add: update_def Let_def crosses_def room_consts)

lemma update_vz:
  "vz (velocity (update dt l)) =
     (if crosses ROOM_SIZE_Z_HALF (vz (pos l) + vz (velocity l) * dt)
      then - vz (velocity l) else vz (velocity l))"
  by (simp add: update_def Let_def crosses_def room_consts)

text \<open>
  Claim C1. One call of \<open>update\<close> with any time step \<open>dt\<close> on any light moves every
  position component to position + velocity * dt, and the moved position is what the
  light keeps (the reflection step does not clamp it). Then, for each axis on its own,
  the velocity component is negated exactly when the moved position component is above
  the room's half extent less twice \<open>LIGHT_OBJECT_RADIUS\<close> or below the negation of
  that margin, and is unchanged otherwise.
\<close>

theorem C1_update_euler_then_reflect:
  "pos (update dt l) =
     \<lparr>vx = vx (pos l) + vx (velocity l) * dt,
      vy = vy (pos l) + vy (velocity l) * dt,
      vz = vz (pos l) + vz (velocity l) * dt\<rparr>
   \<and> vx (velocity (update dt l)) =
       (if crosses ROOM_SIZE_X_HALF (vx (pos (update dt l)))
        then - vx (velocity l) else vx (velocity l))
   \<and> vy (velocity (update dt l)) =
       (if crosses ROOM_SIZE_Y_HALF (vy (pos (update dt l)))
        then - vy (velocity l) else vy (velocity l))
   \<and> vz (velocity (update dt l)) =
       (if crosses ROOM_SIZE_Z_HALF (vz (pos (update dt l)))
        then - vz (velocity l) else vz (velocity l))"
  by (simp add: update_pos update_vx update_vy update_vz)


lemma init_theta_bounds:
  "0 \<le> r2 \<Longrightarrow> r2 \<le> RAND_MAX \<Longrightarrow>
     D3DXToRadian 0 \<le> init_theta r2 \<and> init_theta r2 \<le> D3DXToRadian 360"
  by (simp add: init_theta_def D3DXToRadian_def D3DX_PI_def RAND_MAX_def)









subsection \<open>The camera and the input mapper\<close>

lemma dolly_consts: "DOLLY_MIN = 1 / 100" "DOLLY_MAX = 512"
  by (simp_all add: DOLLY_MIN_def DOLLY_MAX_def CAMERA_ZNEAR_def ROOM_SIZE_X_def ROOM_SIZE_Y_def ROOM_SIZE_Z_def)

lemma clamp_offset_range:
  "DOLLY_MIN \<le> offset (clamp_offset c) \<and> offset (clamp_offset c) \<le> DOLLY_MAX"
  by (simp add: clamp_offset_def Let_def dolly_consts)

lemma clamp_offset_pitch: "pitch (clamp_offset c) = pitch c"
  by (simp add: clamp_offset_def Let_def)

lemma orbit_pitch_fst:
  "fst (orbit_pitch p d) = (if p + d > 90 then 90 else if p + d < - 90 then - 90 else p + d)"
  by (simp add: orbit_pitch_def Let_def)


lemma camera_orbit_pitch:
  "pitch (camera_orbit a b c) = fst (orbit_pitch (pitch c) (real_of_int (py a - py b) * MOUSE_ORBIT_SPEED))"
  by (simp add: camera_orbit_def Let_def split: prod.splits)

lemma camera_orbit_offset: "offset (camera_orbit a b c) = offset c"
  by (simp add: camera_orbit_def Let_def split: prod.splits)

lemma camera_track_ok: "camera_ok (camera_track a b c) = camera_ok c"
  by (simp add: camera_track_def camera_ok_def Let_def)

lemma camera_dolly_ok: "camera_ok c \<Longrightarrow> camera_ok (camera_dolly a b c)"
  using clamp_offset_range [of "c\<lparr>offset := offset c - real_of_int (py a - py b) * MOUSE_DOLLY_SPEED\<rparr>"]
  by (simp add: camera_dolly_def camera_ok_def Let_def clamp_offset_pitch)

lemma mouse_wheel_ok: "camera_ok c \<Longrightarrow> camera_ok (mouse_wheel w c)"
  using clamp_offset_range [of "c\<lparr>offset := offset c - real_of_int (sint w div 65536) * MOUSE_WHEEL_DOLLY_SPEED\<rparr>"]
  by (simp add: mouse_wheel_def camera_ok_def Let_def clamp_offset_pitch)

lemma camera_orbit_ok: "camera_ok c \<Longrightarrow> camera_ok (camera_orbit a b c)"
  by (simp add: camera_ok_def camera_orbit_pitch camera_orbit_offset orbit_pitch_fst)

lemma button_down_camera: "g_camera (button_down m origin l s) = g_camera s"
  by (simp add: button_down_def)

lemma button_up_camera: "g_camera (button_up w s) = g_camera s"
  by (simp add: button_up_def Let_def)

lemma ProcessMouseInput_ok:
  "camera_ok (g_camera s) \<Longrightarrow> camera_ok (g_camera (ProcessMouseInput origin msg w l s))"
  by (cases msg; cases "cameraMode s")
     (simp_all add: ProcessMouseInput_def Let_def button_down_camera button_up_camera
        camera_track_ok camera_dolly_ok camera_orbit_ok mouse_wheel_ok)

lemma on_char_camera: "g_camera (on_char w s) = g_camera s"
  by (simp add: on_char_def Let_def)

lemma WindowProc_ok:
  "camera_ok (g_camera s) \<Longrightarrow> camera_ok (g_camera (WindowProc origin msg w l s))"
  by (cases msg) (simp_all add: WindowProc_def on_char_camera ProcessMouseInput_ok)

lemma rebuild_camera_ok: "camera_ok (rebuild_camera c) = camera_ok c"
  by (simp add: rebuild_camera_def camera_ok_def Let_def)

lemma UpdateFrame_ok: "camera_ok (g_camera (UpdateFrame dt s)) = camera_ok (g_camera s)"
  by (simp add: UpdateFrame_def UpdateEffects_def UpdateLights_def rebuild_camera_ok)

lemma step_ok: "camera_ok (g_camera s) \<Longrightarrow> camera_ok (g_camera (step e s))"
  by (cases e) (simp_all add: WindowProc_ok UpdateFrame_ok)

lemma run_Nil: "run [] s = s"
  by (simp add: run_def)

lemma run_Cons: "run (e # evs) s = run evs (step e s)"
  by (simp add: run_def)

lemma run_ok: "camera_ok (g_camera s) \<Longrightarrow> camera_ok (g_camera (run evs s))"
  by (induction evs arbitrary: s) (simp_all add: run_Nil run_Cons step_ok)

lemma InitApp_camera: "InitApp env s = Inr s' \<Longrightarrow> g_camera s' = g_camera s"
  by (auto simp: InitApp_def Let_def split: sum.splits if_splits)

lemma initial_camera_ok: "camera_ok (g_camera g_initial)"
  by (simp add: g_initial_def g_camera_initial_def camera_ok_def dolly_consts ROOM_SIZE_Z_def)

text \<open>
  Claim C4. Take any run of the program after a successful \<^verbatim>\<open>InitApp\<close>: any list of
  window messages (pointer moves, wheel turns, button and key events with any
  parameters) and frames. In the state after the run, hence after every event of it, the
  camera's pitch is between -90 and 90 and its dolly offset between \<open>DOLLY_MIN\<close> and
  \<open>DOLLY_MAX\<close>. The offset is within these bounds right after a dolly drag and right
  after a wheel turn, whatever the camera was before.
\<close>

theorem C4_pitch_and_offset_bounded:
  assumes "InitApp env g_initial = Inr s0"
  shows "- 90 \<le> pitch (g_camera (run evs s0)) \<and> pitch (g_camera (run evs s0)) \<le> 90
         \<and> DOLLY_MIN \<le> offset (g_camera (run evs s0))
         \<and> offset (g_camera (run evs s0)) \<le> DOLLY_MAX
         \<and> DOLLY_MIN \<le> offset (camera_dolly ptPrev ptCurrent c)
         \<and> offset (camera_dolly ptPrev ptCurrent c) \<le> DOLLY_MAX
         \<and> DOLLY_MIN \<le> offset (mouse_wheel wParam c)
         \<and> offset (mouse_wheel wParam c) \<le> DOLLY_MAX"
proof -
  have "camera_ok (g_camera s0)"
    using assms InitApp_camera initial_camera_ok by simp
  then have "camera_ok (g_camera (run evs s0))"
    by (rule run_ok)
  then show ?thesis
    using clamp_offset_range by (simp add: camera_ok_def camera_dolly_def mouse_wheel_def Let_def)
qed

lemma InitApp_env_sm20:
  "InitApp env_sm20 g_initial = Inr (projr (InitApp env_sm20 g_initial))"
  by (simp add: InitApp_def env_sm20_def detect_shader_model_def D3DVS_VERSION_def D3DPS_VERSION_def Let_def)

lemma InitApp_env_sm30:
  "InitApp env_sm30 g_initial = Inr (projr (InitApp env_sm30 g_initial))"
  by (simp add: InitApp_def env_sm30_def env_sm20_def detect_shader_model_def D3DVS_VERSION_def D3DPS_VERSION_def Let_def)


text \<open>
  An instance: on a shader model 2.0 device, press the right button, drag the pointer
  1000 pixels up, then turn the wheel by the largest positive amount.
\<close>

theorem C4_pitch_and_offset_bounded_witness:
  "InitApp env_sm20 g_initial = Inr (projr (InitApp env_sm20 g_initial))
   \<and> pitch (g_camera (run [Message \<lparr>px = 0, py = 0\<rparr> WM_RBUTTONDOWN 2 0,
                             Message \<lparr>px = 0, py = 0\<rparr> WM_MOUSEMOVE 2 0xFC180000,
                             Message \<lparr>px = 0, py = 0\<rparr> WM_MOUSEWHEEL 0x7FFF0000 0]
                          (projr (InitApp env_sm20 g_initial)))) \<le> 90
   \<and> DOLLY_MIN \<le> offset (g_camera (run [Message \<lparr>px = 0, py = 0\<rparr> WM_RBUTTONDOWN 2 0,
                             Message \<lparr>px = 0, py = 0\<rparr> WM_MOUSEMOVE 2 0xFC180000,
                             Message \<lparr>px = 0, py = 0\<rparr> WM_MOUSEWHEEL 0x7FFF0000 0]
                          (projr (InitApp env_sm20 g_initial))))"
  using C4_pitch_and_offset_bounded [OF InitApp_env_sm20] InitApp_env_sm20
  by blast













lemma normalize_identity:
  "D3DXQuaternionNormalize \<lparr>qx = 0, qy = 0, qz = 0, qw = 1\<rparr> = \<lparr>qx = 0, qy = 0, qz = 0, qw = 1\<rparr>"
  by (simp add: D3DXQuaternionNormalize_def Let_def)

lemma rebuild_identity:
  "orientation c = quat_identity \<Longrightarrow>
     cpos (rebuild_camera c) =
       \<lparr>vx = vx (target c), vy = vy (target c), vz = vz (target c) - offset c\<rparr>"
  by (simp add: rebuild_camera_def Let_def normalize_identity D3DXMatrixRotationQuaternion_def
      quat_identity_def vec_add_def vec_scale_def)

text \<open>
  Claim C6, as stated, fails on the camera of the program's start, which has offset
  \<open>ROOM_SIZE_Z\<close>, zero pitch, identity orientation and the origin as target: the
  rebuild puts the camera at (0, 0, -256), on the negative z axis.
\<close>

theorem C6_camera_on_positive_z_fails:
  "pitch (g_camera g_initial) = 0
   \<and> offset (g_camera g_initial) = ROOM_SIZE_Z
   \<and> orientation (g_camera g_initial) = quat_identity
   \<and> target (g_camera g_initial) = zero3
   \<and> cpos (g_camera (UpdateEffects g_initial)) = \<lparr>vx = 0, vy = 0, vz = - 256\<rparr>
   \<and> vz (cpos (g_camera (UpdateEffects g_initial))) < 0"
  by (simp add: UpdateEffects_def rebuild_identity g_initial_def g_camera_initial_def quat_identity_def
      zero3_def ROOM_SIZE_Z_def)

text \<open>
  Claim C6, amended. If the camera has offset \<open>ROOM_SIZE_Z\<close>, zero pitch, identity
  orientation and target (0, 0, 0), the transform rebuild of a frame, which sets the
  position to target + zAxis * (-offset), puts the camera at (0, 0, -\<open>ROOM_SIZE_Z\<close>):
  on the negative z axis, at distance \<open>ROOM_SIZE_Z\<close> from the origin.
\<close>

theorem C6_camera_on_negative_z:
  assumes "offset (g_camera s) = ROOM_SIZE_Z"
    and "pitch (g_camera s) = 0"
    and "orientation (g_camera s) = quat_identity"
    and "target (g_camera s) = zero3"
  shows "cpos (g_camera (UpdateEffects s)) = \<lparr>vx = 0, vy = 0, vz = - ROOM_SIZE_Z\<rparr>"
  using assms by (simp add: UpdateEffects_def rebuild_identity zero3_def)

theorem C6_camera_on_negative_z_witness:
  "offset (g_camera g_initial) = ROOM_SIZE_Z
   \<and> pitch (g_camera g_initial) = 0
   \<and> orientation (g_camera g_initial) = quat_identity
   \<and> target (g_camera g_initial) = zero3
   \<and> cpos (g_camera (UpdateEffects g_initial)) = \<lparr>vx = 0, vy = 0, vz = - ROOM_SIZE_Z\<rparr>"
proof -
  have a: "offset (g_camera g_initial) = ROOM_SIZE_Z"
    and b: "pitch (g_camera g_initial) = 0"
    and c: "orientation (g_camera g_initial) = quat_identity"
    and d: "target (g_camera g_initial) = zero3"
    by (simp_all add: g_initial_def g_camera_initial_def quat_identity_def)
  from C6_camera_on_negative_z [OF a b c d] a b c d show ?thesis
    by blast
qed

lemma button_up_two:
  "mouseButtonsDown s = 2 \<Longrightarrow>
     button_up w s =
       (if w AND MK_LBUTTON \<noteq> 0 then s\<lparr>mouseButtonsDown := 1, cameraMode := CAMERA_TRACK\<rparr>
        else if w AND MK_RBUTTON \<noteq> 0 then s\<lparr>mouseButtonsDown := 1, cameraMode := CAMERA_ORBIT\<rparr>
        else if w AND MK_MBUTTON \<noteq> 0 then s\<lparr>mouseButtonsDown := 1, cameraMode := CAMERA_DOLLY\<rparr>
        else s\<lparr>mouseButtonsDown := 1\<rparr>)"
  by (simp add: button_up_def Let_def)

text \<open>
  Claim C7, amended. In a state where exactly the left and the right button are held
  and the mapper has counted both presses, so that its count of held buttons is 2:
  releasing the left one (the message reports the right button as still down and the
  left one as up) leaves the mapper in orbit mode, and releasing the right one (the
  message reports the left button as still down and the right one as up) leaves it in
  track mode. In both cases the mapper is not idle, and one button remains counted.
\<close>

theorem C7_release_one_of_left_and_right:
  assumes "mouseButtonsDown s = 2"
    and "wl AND MK_LBUTTON = 0" and "wl AND MK_RBUTTON \<noteq> 0"
    and "wr AND MK_LBUTTON \<noteq> 0" and "wr AND MK_RBUTTON = 0"
  shows "cameraMode (ProcessMouseInput origin WM_LBUTTONUP wl lParam s) = CAMERA_ORBIT
         \<and> cameraMode (ProcessMouseInput origin WM_RBUTTONUP wr lParam s) = CAMERA_TRACK
         \<and> cameraMode (ProcessMouseInput origin WM_LBUTTONUP wl lParam s) \<noteq> CAMERA_NONE
         \<and> cameraMode (ProcessMouseInput origin WM_RBUTTONUP wr lParam s) \<noteq> CAMERA_NONE
         \<and> mouseButtonsDown (ProcessMouseInput origin WM_LBUTTONUP wl lParam s) = 1
         \<and> mouseButtonsDown (ProcessMouseInput origin WM_RBUTTONUP wr lParam s) = 1"
  using assms by (simp add: ProcessMouseInput_def button_up_two)

text \<open>
  The count matters. A press that the window did not receive is not counted: when the
  right button goes down while the left one is already held, and the count was 0, the
  count is 1 although two buttons are down, and the release of either button leaves
  the mapper idle, whatever the message reports as still down.
\<close>

lemma uncounted_press_then_release:
  assumes "mouseButtonsDown s = 0"
    and "up = WM_LBUTTONUP \<or> up = WM_RBUTTONUP"
  shows "mouseButtonsDown (run [Message origin WM_RBUTTONDOWN w l] s) = 1
         \<and> cameraMode (run [Message origin WM_RBUTTONDOWN w l,
                            Message origin' up w' l'] s) = CAMERA_NONE"
  using assms
  by (auto simp: run_def WindowProc_def ProcessMouseInput_def button_down_def button_up_def)

lemma InitApp_mouse:
  "InitApp env s = Inr s' \<Longrightarrow>
     mouseButtonsDown s' = mouseButtonsDown s \<and> cameraMode s' = cameraMode s"
  by (auto simp: InitApp_def Let_def split: sum.splits if_splits)

lemma left_right_held:
  "mouseButtonsDown (run [Message \<lparr>px = 0, py = 0\<rparr> WM_LBUTTONDOWN MK_LBUTTON 0,
                          Message \<lparr>px = 0, py = 0\<rparr> WM_RBUTTONDOWN (MK_LBUTTON OR MK_RBUTTON) 0]
                       g_initial) = 2"
  "cameraMode (run [Message \<lparr>px = 0, py = 0\<rparr> WM_LBUTTONDOWN MK_LBUTTON 0,
                          Message \<lparr>px = 0, py = 0\<rparr> WM_RBUTTONDOWN (MK_LBUTTON OR MK_RBUTTON) 0]
                       g_initial) = CAMERA_ORBIT"
  by (simp_all add: run_def WindowProc_def ProcessMouseInput_def button_down_def g_initial_def)

lemma mk_bits:
  "MK_RBUTTON AND MK_LBUTTON = 0" "MK_RBUTTON AND MK_RBUTTON \<noteq> 0"
  "MK_LBUTTON AND MK_LBUTTON \<noteq> 0" "MK_LBUTTON AND MK_RBUTTON = 0"
  by (simp_all add: MK_LBUTTON_def MK_RBUTTON_def)

text \<open>
  Claim C7, as stated, fails when the button released is the right one: press left,
  press right, release right. The left button is still down, and the mapper is in track
  mode, not in orbit mode. It also fails when a press was not counted: the right button
  goes down with the left one reported as held, the count is 1, and the release of the
  left button, with the right one reported as still down, leaves the mapper idle.
\<close>

theorem C7_release_right_gives_track:
  "mouseButtonsDown (run [Message \<lparr>px = 0, py = 0\<rparr> WM_LBUTTONDOWN MK_LBUTTON 0,
                          Message \<lparr>px = 0, py = 0\<rparr> WM_RBUTTONDOWN (MK_LBUTTON OR MK_RBUTTON) 0]
                       g_initial) = 2
   \<and> cameraMode (run [Message \<lparr>px = 0, py = 0\<rparr> WM_LBUTTONDOWN MK_LBUTTON 0,
                      Message \<lparr>px = 0, py = 0\<rparr> WM_RBUTTONDOWN (MK_LBUTTON OR MK_RBUTTON) 0,
                      Message \<lparr>px = 0, py = 0\<rparr> WM_RBUTTONUP MK_LBUTTON 0]
                   g_initial) = CAMERA_TRACK
   \<and> cameraMode (run [Message \<lparr>px = 0, py = 0\<rparr> WM_LBUTTONDOWN MK_LBUTTON 0,
                      Message \<lparr>px = 0, py = 0\<rparr> WM_RBUTTONDOWN (MK_LBUTTON OR MK_RBUTTON) 0,
                      Message \<lparr>px = 0, py = 0\<rparr> WM_RBUTTONUP MK_LBUTTON 0]
                   g_initial) \<noteq> CAMERA_ORBIT
   \<and> mouseButtonsDown (run [Message \<lparr>px = 0, py = 0\<rparr> WM_RBUTTONDOWN (MK_LBUTTON OR MK_RBUTTON) 0]
                          g_initial) = 1
   \<and> MK_RBUTTON AND MK_LBUTTON = 0 \<and> MK_RBUTTON AND MK_RBUTTON \<noteq> 0
   \<and> cameraMode (run [Message \<lparr>px = 0, py = 0\<rparr> WM_RBUTTONDOWN (MK_LBUTTON OR MK_RBUTTON) 0,
                      Message \<lparr>px = 0, py = 0\<rparr> WM_LBUTTONUP MK_RBUTTON 0]
                   g_initial) = CAMERA_NONE"
  by (simp add: run_def WindowProc_def ProcessMouseInput_def button_down_def button_up_def
      g_initial_def MK_LBUTTON_def MK_RBUTTON_def Let_def)

theorem C7_release_one_of_left_and_right_witness:
  "mouseButtonsDown (run [Message \<lparr>px = 0, py = 0\<rparr> WM_LBUTTONDOWN MK_LBUTTON 0,
                          Message \<lparr>px = 0, py = 0\<rparr> WM_RBUTTONDOWN (MK_LBUTTON OR MK_RBUTTON) 0]
                       g_initial) = 2
   \<and> MK_RBUTTON AND MK_LBUTTON = 0 \<and> MK_RBUTTON AND MK_RBUTTON \<noteq> 0
   \<and> MK_LBUTTON AND MK_LBUTTON \<noteq> 0 \<and> MK_LBUTTON AND MK_RBUTTON = 0
   \<and> cameraMode (ProcessMouseInput \<lparr>px = 0, py = 0\<rparr> WM_LBUTTONUP MK_RBUTTON 0
        (run [Message \<lparr>px = 0, py = 0\<rparr> WM_LBUTTONDOWN MK_LBUTTON 0,
              Message \<lparr>px = 0, py = 0\<rparr> WM_RBUTTONDOWN (MK_LBUTTON OR MK_RBUTTON) 0]
           g_initial)) = CAMERA_ORBIT
   \<and> cameraMode (ProcessMouseInput \<lparr>px = 0, py = 0\<rparr> WM_RBUTTONUP MK_LBUTTON 0
        (run [Message \<lparr>px = 0, py = 0\<rparr> WM_LBUTTONDOWN MK_LBUTTON 0,
              Message \<lparr>px = 0, py = 0\<rparr> WM_RBUTTONDOWN (MK_LBUTTON OR MK_RBUTTON) 0]
           g_initial)) = CAMERA_TRACK"
  using C7_release_one_of_left_and_right
    [where origin = "\<lparr>px = 0, py = 0\<rparr>" and lParam = 0, OF left_right_held(1) mk_bits]
    left_right_held(1) mk_bits
  by blast

subsection \<open>Keys, light radii and the technique selection\<close>

lemma radius_consts: "LIGHT_RADIUS_MIN = 0" "LIGHT_RADIUS_MAX = 320"
  by (simp_all add: LIGHT_RADIUS_MIN_def LIGHT_RADIUS_MAX_def ROOM_SIZE_X_def ROOM_SIZE_Y_def ROOM_SIZE_Z_def)

lemma init_radius: "radius (init r1 r2 l) = radius l"
  by (simp add: init_def Let_def)

lemma init_lights_length: "length (init_lights rnd i n ls) = length ls"
proof (induction rnd i n ls rule: init_lights.induct)
  case (1 rnd i n ls)
  then show ?case
    by (subst init_lights.simps) simp
qed

lemma init_lights_radii: "map radius (init_lights rnd i n ls) = map radius ls"
proof (induction rnd i n ls rule: init_lights.induct)
  case (1 rnd i n ls)
  show ?case
  proof (cases "i < n \<and> i < length ls")
    case True
    then have "map radius (init_lights rnd i n ls) =
        map radius (ls[i := init (rnd (2 * i)) (rnd (2 * i + 1)) (ls ! i)])"
      using "1" by (subst init_lights.simps) simp
    also have "\<dots> = (map radius ls)[i := radius (ls ! i)]"
      by (simp add: map_update init_radius)
    also have "\<dots> = map radius ls"
      using True by (simp add: list_update_same_conv)
    finally show ?thesis .
  next
    case False
    show ?thesis
      by (subst init_lights.simps) (simp add: False)
  qed
qed

lemma initial_radii: "radii g_initial = replicate 8 100"
  by (simp add: radii_def g_initial_def g_lights_initial_def static_light_def numeral_eq_Suc)

lemma InitApp_radii: "InitApp env s = Inr s' \<Longrightarrow> radii s' = radii s"
  by (auto simp: InitApp_def Let_def radii_def init_lights_radii split: sum.splits if_splits)

lemma radius_up_radius: "radius (radius_up l) = min LIGHT_RADIUS_MAX (radius l + 1)"
  by (simp add: radius_up_def Let_def min_def)

lemma radius_down_radius: "radius (radius_down l) = max LIGHT_RADIUS_MIN (radius l - 1)"
  by (simp add: radius_down_def Let_def max_def)

lemma on_char_radii:
  "radii (on_char w s) =
     (if sint w = 43 \<or> sint w = 61 then map (\<lambda>r. min LIGHT_RADIUS_MAX (r + 1)) (radii s)
      else if sint w = 45 then map (\<lambda>r. max LIGHT_RADIUS_MIN (r - 1)) (radii s)
      else radii s)"
  by (simp add: on_char_def Let_def radii_def VK_ESCAPE_def VK_SPACE_def comp_def
      radius_up_radius radius_down_radius)

lemma ProcessMouseInput_lights: "g_lights (ProcessMouseInput origin msg w l s) = g_lights s"
  by (cases msg) (simp_all add: ProcessMouseInput_def Let_def button_down_def button_up_def)

lemma WindowProc_radii:
  "radii (WindowProc origin msg w l s) = (if msg = WM_CHAR then radii (on_char w s) else radii s)"
  by (cases msg) (simp_all add: WindowProc_def radii_def ProcessMouseInput_lights)

lemma UpdateLights_radii: "radii (UpdateLights dt s) = radii s"
  by (simp add: UpdateLights_def radii_def comp_def update_radius)

lemma UpdateFrame_radii: "radii (UpdateFrame dt s) = radii s"
  using UpdateLights_radii [of dt s]
  by (simp add: UpdateFrame_def UpdateEffects_def radii_def)

lemma step_uniform:
  assumes "radii s = replicate 8 r" and "LIGHT_RADIUS_MIN \<le> r" and "r \<le> LIGHT_RADIUS_MAX"
  shows "\<exists>r'. radii (step e s) = replicate 8 r' \<and> LIGHT_RADIUS_MIN \<le> r' \<and> r' \<le> LIGHT_RADIUS_MAX"
proof (cases e)
  case (Message origin msg w l)
  then show ?thesis
    using assms by (auto simp: WindowProc_radii on_char_radii radius_consts)
next
  case (Frame dt)
  then show ?thesis
    using assms by (auto simp: UpdateFrame_radii)
qed

lemma run_uniform:
  assumes "radii s = replicate 8 r" and "LIGHT_RADIUS_MIN \<le> r" and "r \<le> LIGHT_RADIUS_MAX"
  shows "\<exists>r'. radii (run evs s) = replicate 8 r' \<and> LIGHT_RADIUS_MIN \<le> r' \<and> r' \<le> LIGHT_RADIUS_MAX"
  using assms
proof (induction evs arbitrary: s r)
  case Nil
  then show ?case by (auto simp: run_Nil)
next
  case (Cons e evs)
  obtain r' where "radii (step e s) = replicate 8 r'" "LIGHT_RADIUS_MIN \<le> r'" "r' \<le> LIGHT_RADIUS_MAX"
    using step_uniform [OF Cons.prems] by blast
  then show ?case
    using Cons.IH by (simp add: run_Cons)
qed

lemma reachable_uniform:
  assumes "InitApp env g_initial = Inr s0"
  shows "\<exists>r. radii (run evs s0) = replicate 8 r \<and> LIGHT_RADIUS_MIN \<le> r \<and> r \<le> LIGHT_RADIUS_MAX"
proof -
  have "radii s0 = replicate 8 100"
    using assms InitApp_radii initial_radii by simp
  then show ?thesis
    by (rule run_uniform) (simp_all add: radius_consts)
qed


lemma radii_nth: "i < length (g_lights s) \<Longrightarrow> radius (g_lights s ! i) = radii s ! i"
  by (simp add: radii_def)

lemma radii_length: "length (radii s) = length (g_lights s)"
  by (simp add: radii_def)

text \<open>
  Claim C8. In the state after any run of messages and frames that follows a successful
  \<^verbatim>\<open>InitApp\<close>, every light's radius is between \<open>LIGHT_RADIUS_MIN\<close>, which is 0, and
  \<open>LIGHT_RADIUS_MAX\<close>. A \<open>+\<close> key (or \<open>=\<close>) sets it to the radius plus 1 and a \<open>-\<close> key
  to the radius minus 1, each brought back into that interval. The handler is a total
  function from states to states: no key is rejected and no error value exists.
\<close>

theorem C8_radius_keys_clamped:
  assumes "InitApp env g_initial = Inr s0" and "s = run evs s0" and "i < length (g_lights s)"
  shows "LIGHT_RADIUS_MIN \<le> radius (g_lights s ! i) \<and> radius (g_lights s ! i) \<le> LIGHT_RADIUS_MAX
         \<and> radius (g_lights (WindowProc origin WM_CHAR 43 lParam s) ! i) =
             clamp_radius (radius (g_lights s ! i) + 1)
         \<and> radius (g_lights (WindowProc origin WM_CHAR 61 lParam s) ! i) =
             clamp_radius (radius (g_lights s ! i) + 1)
         \<and> radius (g_lights (WindowProc origin WM_CHAR 45 lParam s) ! i) =
             clamp_radius (radius (g_lights s ! i) - 1)
         \<and> length (g_lights (WindowProc origin WM_CHAR 43 lParam s)) = length (g_lights s)
         \<and> length (g_lights (WindowProc origin WM_CHAR 61 lParam s)) = length (g_lights s)
         \<and> length (g_lights (WindowProc origin WM_CHAR 45 lParam s)) = length (g_lights s)"
proof -
  obtain r where r: "radii s = replicate 8 r" "LIGHT_RADIUS_MIN \<le> r" "r \<le> LIGHT_RADIUS_MAX"
    using reachable_uniform [OF assms(1), of evs] assms(2) by blast
  have len: "length (g_lights s) = 8"
    using r(1) radii_length [of s] by simp
  have i: "i < 8"
    using assms(3) len by simp
  have cur: "radius (g_lights s ! i) = r"
    using assms(3) i r(1) by (simp add: radii_nth)
  have lens: "length (g_lights (WindowProc origin WM_CHAR w lParam s)) = length (g_lights s)"
    if "sint w = 43 \<or> sint w = 61 \<or> sint w = 45" for w
    using that radii_length [of "WindowProc origin WM_CHAR w lParam s"] radii_length [of s]
    by (auto simp: WindowProc_radii on_char_radii)
  have up: "radius (g_lights (WindowProc origin WM_CHAR w lParam s) ! i) = clamp_radius (r + 1)"
    if "sint w = 43 \<or> sint w = 61" for w
  proof -
    have "length (g_lights (WindowProc origin WM_CHAR w lParam s)) = length (g_lights s)"
      using lens [of w] that by blast
    then have "radius (g_lights (WindowProc origin WM_CHAR w lParam s) ! i) =
            radii (WindowProc origin WM_CHAR w lParam s) ! i"
      using assms(3) by (simp add: radii_def)
    also have "\<dots> = min LIGHT_RADIUS_MAX (r + 1)"
      using that i r(1) by (auto simp: WindowProc_radii on_char_radii)
    also have "\<dots> = clamp_radius (r + 1)"
      using r(2) by (simp add: clamp_radius_def radius_consts)
    finally show ?thesis .
  qed
  have down: "radius (g_lights (WindowProc origin WM_CHAR 45 lParam s) ! i) = clamp_radius (r - 1)"
  proof -
    have "length (g_lights (WindowProc origin WM_CHAR 45 lParam s)) = length (g_lights s)"
      using lens [of 45] by simp
    then have "radius (g_lights (WindowProc origin WM_CHAR 45 lParam s) ! i) =
            radii (WindowProc origin WM_CHAR 45 lParam s) ! i"
      using assms(3) by (simp add: radii_def)
    also have "\<dots> = max LIGHT_RADIUS_MIN (r - 1)"
      using i r(1) by (simp add: WindowProc_radii on_char_radii)
    also have "\<dots> = clamp_radius (r - 1)"
      using r(3) by (simp add: clamp_radius_def radius_consts)
    finally show ?thesis .
  qed
  show ?thesis
    using r(2,3) up [of 43] up [of 61] down lens [of 43] lens [of 61] lens [of 45]
    by (simp add: cur)
qed

text \<open>
  Claim C10. Every light of the static collection starts with radius 100. In the state
  after any run of messages and frames that follows a successful \<^verbatim>\<open>InitApp\<close> the
  collection has its eight lights and each has the radius of the first one. The \<open>+\<close>,
  \<open>=\<close> and \<open>-\<close> keys apply the same clamped step to every light of the collection, and
  the light update of a frame leaves every radius as it is.
\<close>

theorem C10_all_radii_equal:
  assumes "InitApp env g_initial = Inr s0" and "s = run evs s0"
  shows "map radius (g_lights g_initial) = replicate 8 100
         \<and> length (g_lights s) = 8
         \<and> map radius (g_lights s) = replicate 8 (radius (g_lights s ! 0))
         \<and> map radius (g_lights (WindowProc origin WM_CHAR 43 lParam s)) =
             map (\<lambda>l. clamp_radius (radius l + 1)) (g_lights s)
         \<and> map radius (g_lights (WindowProc origin WM_CHAR 61 lParam s)) =
             map (\<lambda>l. clamp_radius (radius l + 1)) (g_lights s)
         \<and> map radius (g_lights (WindowProc origin WM_CHAR 45 lParam s)) =
             map (\<lambda>l. clamp_radius (radius l - 1)) (g_lights s)
         \<and> map radius (g_lights (UpdateLights elapsedTimeSec s)) = map radius (g_lights s)
         \<and> map radius (g_lights (UpdateFrame elapsedTimeSec s)) = map radius (g_lights s)"
proof -
  obtain r where r: "radii s = replicate 8 r" "LIGHT_RADIUS_MIN \<le> r" "r \<le> LIGHT_RADIUS_MAX"
    using reachable_uniform [OF assms(1), of evs] assms(2) by blast
  have len: "length (g_lights s) = 8"
    using r(1) radii_length [of s] by simp
  have "radius (g_lights s ! 0) = r"
    using len r(1) by (simp add: radii_nth)
  then have eq: "map radius (g_lights s) = replicate 8 (radius (g_lights s ! 0))"
    using r(1) by (simp add: radii_def)
  have c1: "min LIGHT_RADIUS_MAX (r + 1) = clamp_radius (r + 1)"
    using r(2) by (simp add: clamp_radius_def radius_consts)
  have c2: "max LIGHT_RADIUS_MIN (r - 1) = clamp_radius (r - 1)"
    using r(3) by (simp add: clamp_radius_def radius_consts)
  have m: "map (\<lambda>l. f (radius l)) (g_lights s) = replicate 8 (f r)" for f :: "real \<Rightarrow> real"
  proof -
    have "map (\<lambda>l. f (radius l)) (g_lights s) = map f (radii s)"
      by (simp add: radii_def comp_def)
    then show ?thesis
      using r(1) by simp
  qed
  have up: "radii (WindowProc origin WM_CHAR w lParam s) = map (\<lambda>l. clamp_radius (radius l + 1)) (g_lights s)"
    if "sint w = 43 \<or> sint w = 61" for w
    using that r(1) c1 m [of "\<lambda>x. clamp_radius (x + 1)"]
    by (auto simp: WindowProc_radii on_char_radii)
  have down: "radii (WindowProc origin WM_CHAR 45 lParam s) = map (\<lambda>l. clamp_radius (radius l - 1)) (g_lights s)"
    using r(1) c2 m [of "\<lambda>x. clamp_radius (x - 1)"]
    by (simp add: WindowProc_radii on_char_radii)
  show ?thesis
    using initial_radii len eq up [of 43] up [of 61] down
      UpdateLights_radii [of elapsedTimeSec s] UpdateFrame_radii [of elapsedTimeSec s]
    by (simp add: radii_def)
qed


lemma reachable_length:
  assumes "InitApp env g_initial = Inr s0"
  shows "length (g_lights (run evs s0)) = 8"
proof -
  obtain r where "radii (run evs s0) = replicate 8 r"
    using reachable_uniform [OF assms, of evs] by blast
  then show ?thesis
    using radii_length [of "run evs s0"] by simp
qed

lemma plus_key_once:
  assumes "InitApp env g_initial = Inr s0"
  shows "radii (run [Message origin WM_CHAR 43 lParam] s0) = replicate 8 101"
proof -
  have "radii s0 = replicate 8 100"
    using assms InitApp_radii initial_radii by simp
  then show ?thesis
    by (simp add: run_Cons run_Nil WindowProc_radii on_char_radii radius_consts)
qed

text \<open>
  An instance: on a shader model 2.0 device one \<open>+\<close> takes the first light from 100
  to 101, and a \<open>-\<close> then takes it back.
\<close>

theorem C8_radius_keys_clamped_witness:
  "InitApp env_sm20 g_initial = Inr (projr (InitApp env_sm20 g_initial))
   \<and> (0::nat) < length (g_lights (run [Message \<lparr>px = 0, py = 0\<rparr> WM_CHAR 43 0]
                                    (projr (InitApp env_sm20 g_initial))))
   \<and> radius (g_lights (run [Message \<lparr>px = 0, py = 0\<rparr> WM_CHAR 43 0]
                          (projr (InitApp env_sm20 g_initial))) ! 0) = 101
   \<and> radius (g_lights (WindowProc \<lparr>px = 0, py = 0\<rparr> WM_CHAR 45 0
                          (run [Message \<lparr>px = 0, py = 0\<rparr> WM_CHAR 43 0]
                             (projr (InitApp env_sm20 g_initial)))) ! 0) = clamp_radius (101 - 1)"
proof -
  let ?s0 = "projr (InitApp env_sm20 g_initial)"
  let ?s = "run [Message \<lparr>px = 0, py = 0\<rparr> WM_CHAR 43 0] ?s0"
  have len: "(0::nat) < length (g_lights ?s)"
    using reachable_length [OF InitApp_env_sm20] by simp
  have "radii ?s ! 0 = 101"
    using plus_key_once [OF InitApp_env_sm20] by simp
  then have cur: "radius (g_lights ?s ! 0) = 101"
    using len by (simp add: radii_def)
  from C8_radius_keys_clamped [OF InitApp_env_sm20 refl len, of "\<lparr>px = 0, py = 0\<rparr>" 0]
  show ?thesis
    using InitApp_env_sm20 len cur by simp
qed

text \<open>An instance: a \<open>+\<close> key and then a frame of one second.\<close>

theorem C10_all_radii_equal_witness:
  "InitApp env_sm20 g_initial = Inr (projr (InitApp env_sm20 g_initial))
   \<and> length (g_lights (run [Message \<lparr>px = 0, py = 0\<rparr> WM_CHAR 43 0, Frame 1]
                         (projr (InitApp env_sm20 g_initial)))) = 8
   \<and> map radius (g_lights (run [Message \<lparr>px = 0, py = 0\<rparr> WM_CHAR 43 0, Frame 1]
                             (projr (InitApp env_sm20 g_initial)))) =
       replicate 8 (radius (g_lights (run [Message \<lparr>px = 0, py = 0\<rparr> WM_CHAR 43 0, Frame 1]
                             (projr (InitApp env_sm20 g_initial))) ! 0))"
  using C10_all_radii_equal [OF InitApp_env_sm20 refl] InitApp_env_sm20
  by blast

lemma InitApp_tech:
  assumes "InitApp env s = Inr s'"
  shows "detect_shader_model (VertexShaderVersion env) (PixelShaderVersion env) =
           Inr (g_supportsShaderModel30 s')
         \<and> g_pBlinnPhongEffect s' =
             Some (if g_supportsShaderModel30 s' then BlinnPhongEffectSM30 else BlinnPhongEffectSM20)
         \<and> g_numLights s' = (if g_supportsShaderModel30 s' then MAX_LIGHTS_SM30 else MAX_LIGHTS_SM20)"
  using assms
  by (auto simp: InitApp_def Let_def split: sum.splits if_splits)

lemma ProcessMouseInput_tech:
  "g_supportsShaderModel30 (ProcessMouseInput origin msg w l s) = g_supportsShaderModel30 s
   \<and> g_pBlinnPhongEffect (ProcessMouseInput origin msg w l s) = g_pBlinnPhongEffect s
   \<and> g_numLights (ProcessMouseInput origin msg w l s) = g_numLights s"
  by (cases msg) (simp_all add: ProcessMouseInput_def Let_def button_down_def button_up_def)

lemma UpdateFrame_tech:
  "g_supportsShaderModel30 (UpdateFrame dt s) = g_supportsShaderModel30 s
   \<and> g_pBlinnPhongEffect (UpdateFrame dt s) = g_pBlinnPhongEffect s
   \<and> g_numLights (UpdateFrame dt s) = g_numLights s"
  by (simp add: UpdateFrame_def UpdateEffects_def UpdateLights_def)

lemma on_char_tech: "tech_ok b s \<Longrightarrow> tech_ok b (on_char w s)"
  by (auto simp: on_char_def Let_def tech_ok_def)

lemma step_tech: "tech_ok b s \<Longrightarrow> tech_ok b (step e s)"
proof (cases e)
  case (Message origin msg w l)
  assume "tech_ok b s"
  then show ?thesis
    using Message ProcessMouseInput_tech [of origin msg w l s]
    by (cases msg) (simp_all add: WindowProc_def on_char_tech, simp_all add: tech_ok_def)
next
  case (Frame dt)
  assume "tech_ok b s"
  then show ?thesis
    using Frame UpdateFrame_tech [of dt s] by (simp add: tech_ok_def)
qed

lemma run_tech: "tech_ok b s \<Longrightarrow> tech_ok b (run evs s)"
  by (induction evs arbitrary: s) (simp_all add: run_Nil run_Cons step_tech)

lemma reachable_tech:
  assumes "InitApp env g_initial = Inr s0"
  shows "tech_ok (g_supportsShaderModel30 s0) (run evs s0)"
proof -
  have "tech_ok (g_supportsShaderModel30 s0) s0"
    using InitApp_tech [OF assms] by (auto simp: tech_ok_def)
  then show ?thesis
    by (rule run_tech)
qed

lemma toggle_key:
  assumes "sint k = 115 \<or> sint k = 83"
  shows "WindowProc origin WM_CHAR k lParam s =
     (if g_supportsShaderModel30 s
      then (if g_pBlinnPhongEffect s = Some BlinnPhongEffectSM20
            then s\<lparr>g_pBlinnPhongEffect := Some BlinnPhongEffectSM30, g_numLights := MAX_LIGHTS_SM30\<rparr>
            else s\<lparr>g_pBlinnPhongEffect := Some BlinnPhongEffectSM20, g_numLights := MAX_LIGHTS_SM20\<rparr>)
      else s)"
proof -
  define c where "c = sint k"
  have c: "c = 115 \<or> c = 83"
    using assms by (simp add: c_def)
  have "on_char k s =
     (if g_supportsShaderModel30 s
      then (if g_pBlinnPhongEffect s = Some BlinnPhongEffectSM20
            then s\<lparr>g_pBlinnPhongEffect := Some BlinnPhongEffectSM30, g_numLights := MAX_LIGHTS_SM30\<rparr>
            else s\<lparr>g_pBlinnPhongEffect := Some BlinnPhongEffectSM20, g_numLights := MAX_LIGHTS_SM20\<rparr>)
      else s)"
    unfolding on_char_def Let_def c_def [symmetric]
    using c by (elim disjE) (simp_all add: VK_ESCAPE_def VK_SPACE_def)
  then show ?thesis
    by (simp add: WindowProc_def)
qed

text \<open>
  Claim C3. Let \<open>s\<close> be the state after any run that follows a successful \<^verbatim>\<open>InitApp\<close>,
  and \<open>s'\<close> the state after an \<open>s\<close> or \<open>S\<close> key in \<open>s\<close>. The flag
  \<^verbatim>\<open>g_supportsShaderModel30\<close> is what the capability test found. If it is false (only
  the lower tier is supported), the selected effect in \<open>s\<close> is the shader model 2.0 one,
  the light count is 2, and the key changes nothing. If it is true, \<^verbatim>\<open>InitApp\<close> selects
  the shader model 3.0 effect with 8 lights; in \<open>s\<close> the light count is the maximum of
  the selected tier; and the key selects the other tier and sets the light count to
  that tier's maximum, 8 for shader model 3.0 and 2 for shader model 2.0.
\<close>

theorem C3_tier_selection_and_toggle:
  assumes "InitApp env g_initial = Inr s0"
    and "s = run evs s0"
    and "sint k = 115 \<or> sint k = 83"
    and "s' = WindowProc origin WM_CHAR k lParam s"
  shows "detect_shader_model (VertexShaderVersion env) (PixelShaderVersion env) =
           Inr (g_supportsShaderModel30 s0)
         \<and> (\<not> g_supportsShaderModel30 s0 \<longrightarrow>
              g_pBlinnPhongEffect s = Some BlinnPhongEffectSM20 \<and> g_numLights s = 2 \<and> s' = s)
         \<and> (g_supportsShaderModel30 s0 \<longrightarrow>
              g_pBlinnPhongEffect s0 = Some BlinnPhongEffectSM30 \<and> g_numLights s0 = 8
              \<and> (\<exists>e. g_pBlinnPhongEffect s = Some e \<and> g_numLights s = tier_max e)
              \<and> (\<exists>e'. g_pBlinnPhongEffect s' = Some e' \<and> g_numLights s' = tier_max e'
                        \<and> g_pBlinnPhongEffect s' \<noteq> g_pBlinnPhongEffect s)
              \<and> (g_pBlinnPhongEffect s = Some BlinnPhongEffectSM20 \<longrightarrow>
                    g_pBlinnPhongEffect s' = Some BlinnPhongEffectSM30 \<and> g_numLights s' = 8)
              \<and> (g_pBlinnPhongEffect s = Some BlinnPhongEffectSM30 \<longrightarrow>
                    g_pBlinnPhongEffect s' = Some BlinnPhongEffectSM20 \<and> g_numLights s' = 2))"
proof -
  have t: "tech_ok (g_supportsShaderModel30 s0) s"
    using reachable_tech [OF assms(1), of evs] assms(2) by simp
  have k: "s' = (if g_supportsShaderModel30 s
      then (if g_pBlinnPhongEffect s = Some BlinnPhongEffectSM20
            then s\<lparr>g_pBlinnPhongEffect := Some BlinnPhongEffectSM30, g_numLights := MAX_LIGHTS_SM30\<rparr>
            else s\<lparr>g_pBlinnPhongEffect := Some BlinnPhongEffectSM20, g_numLights := MAX_LIGHTS_SM20\<rparr>)
      else s)"
    using toggle_key [OF assms(3)] assms(4) by simp
  show ?thesis
    using InitApp_tech [OF assms(1)] t k
    by (auto simp: tech_ok_def tier_max_def MAX_LIGHTS_SM20_def MAX_LIGHTS_SM30_def)
qed

lemma env_sm20_tier: "\<not> g_supportsShaderModel30 (projr (InitApp env_sm20 g_initial))"
proof -
  have "detect_shader_model (VertexShaderVersion env_sm20) (PixelShaderVersion env_sm20) = Inr False"
    by (simp add: detect_shader_model_def env_sm20_def D3DVS_VERSION_def D3DPS_VERSION_def)
  then show ?thesis
    using InitApp_tech [OF InitApp_env_sm20] by simp
qed

lemma env_sm30_tier: "g_supportsShaderModel30 (projr (InitApp env_sm30 g_initial))"
proof -
  have "detect_shader_model (VertexShaderVersion env_sm30) (PixelShaderVersion env_sm30) = Inr True"
    by (simp add: detect_shader_model_def env_sm30_def env_sm20_def D3DVS_VERSION_def D3DPS_VERSION_def)
  then show ?thesis
    using InitApp_tech [OF InitApp_env_sm30] by simp
qed

text \<open>
  Two instances: a shader model 2.0 device, where the key is pressed twice, and a
  shader model 3.0 device, where it is pressed right after start.
\<close>

theorem C3_tier_selection_and_toggle_witness:
  "InitApp env_sm20 g_initial = Inr (projr (InitApp env_sm20 g_initial))
   \<and> \<not> g_supportsShaderModel30 (projr (InitApp env_sm20 g_initial))
   \<and> sint (115 :: 32 word) = 115
   \<and> g_numLights (run [Message \<lparr>px = 0, py = 0\<rparr> WM_CHAR 115 0]
                     (projr (InitApp env_sm20 g_initial))) = 2
   \<and> WindowProc \<lparr>px = 0, py = 0\<rparr> WM_CHAR 115 0
        (run [Message \<lparr>px = 0, py = 0\<rparr> WM_CHAR 115 0] (projr (InitApp env_sm20 g_initial))) =
       run [Message \<lparr>px = 0, py = 0\<rparr> WM_CHAR 115 0] (projr (InitApp env_sm20 g_initial))
   \<and> InitApp env_sm30 g_initial = Inr (projr (InitApp env_sm30 g_initial))
   \<and> g_supportsShaderModel30 (projr (InitApp env_sm30 g_initial))
   \<and> g_numLights (projr (InitApp env_sm30 g_initial)) = 8
   \<and> g_pBlinnPhongEffect (WindowProc \<lparr>px = 0, py = 0\<rparr> WM_CHAR 115 0
        (run [] (projr (InitApp env_sm30 g_initial)))) = Some BlinnPhongEffectSM20
   \<and> g_numLights (WindowProc \<lparr>px = 0, py = 0\<rparr> WM_CHAR 115 0
        (run [] (projr (InitApp env_sm30 g_initial)))) = 2"
proof -
  have k: "sint (115 :: 32 word) = 115 \<or> sint (115 :: 32 word) = 83"
    by simp
  note lo = C3_tier_selection_and_toggle [OF InitApp_env_sm20 refl k refl,
      of "[Message \<lparr>px = 0, py = 0\<rparr> WM_CHAR 115 0]" "\<lparr>px = 0, py = 0\<rparr>" 0]
  note hi = C3_tier_selection_and_toggle [OF InitApp_env_sm30 refl k refl,
      of "[]" "\<lparr>px = 0, py = 0\<rparr>" 0]
  have a: "g_pBlinnPhongEffect (run [] (projr (InitApp env_sm30 g_initial))) = Some BlinnPhongEffectSM30"
    using hi env_sm30_tier by (simp add: run_Nil)
  show ?thesis
    using lo hi a InitApp_env_sm20 InitApp_env_sm30 env_sm20_tier env_sm30_tier
    by simp
qed

subsection \<open>The frame timer\<close>

lemma sum_samples_eq:
  "n \<le> length ft \<Longrightarrow> sum_samples ft i n acc = acc + sum_list (drop i (take n ft))"
proof (induction ft i n acc rule: sum_samples.induct)
  case (1 ft i n acc)
  show ?case
  proof (cases "i < n")
    case True
    have len: "i < length (take n ft)"
      using True "1.prems" by simp
    have "sum_samples ft i n acc = sum_samples ft (i + 1) n (acc + ft ! i)"
      by (subst sum_samples.simps) (simp add: True)
    also have "\<dots> = acc + ft ! i + sum_list (drop (i + 1) (take n ft))"
      using "1.IH" [OF True "1.prems"] .
    also have "\<dots> = acc + sum_list (take n ft ! i # drop (Suc i) (take n ft))"
      using True by simp
    also have "take n ft ! i # drop (Suc i) (take n ft) = drop i (take n ft)"
      using len by (rule Cons_nth_drop_Suc)
    finally show ?thesis .
  next
    case False
    have "sum_samples ft i n acc = acc"
      by (subst sum_samples.simps) (simp add: False)
    then show ?thesis
      using False by simp
  qed
qed

lemma timer_setup_fields:
  "frameTimes (timer_setup clk t) = frameTimes t"
  "sampleCount (timer_setup clk t) = sampleCount t"
  "actualElapsedTimeSec (timer_setup clk t) = actualElapsedTimeSec t"
  by (simp_all add: timer_setup_def)

lemma timer_step_buffer:
  "frameTimes (snd (GetElapsedTimeInSeconds clk t)) =
     (if \<bar>raw_elapsed clk t - actualElapsedTimeSec t\<bar> < 1
      then push_sample (raw_elapsed clk t) (frameTimes t) else frameTimes t)"
  by (simp add: GetElapsedTimeInSeconds_def raw_elapsed_def Let_def timer_setup_fields)

lemma timer_step_count:
  "sampleCount (snd (GetElapsedTimeInSeconds clk t)) =
     (if \<bar>raw_elapsed clk t - actualElapsedTimeSec t\<bar> < 1
      then (if sampleCount t < MAX_SAMPLE_COUNT then sampleCount t + 1 else sampleCount t)
      else sampleCount t)"
  by (simp add: GetElapsedTimeInSeconds_def raw_elapsed_def Let_def timer_setup_fields)

lemma timer_step_result:
  "fst (GetElapsedTimeInSeconds clk t) = actualElapsedTimeSec (snd (GetElapsedTimeInSeconds clk t))"
  by (simp add: GetElapsedTimeInSeconds_def Let_def)

lemma timer_step_average:
  "actualElapsedTimeSec (snd (GetElapsedTimeInSeconds clk t)) =
     (let t' = snd (GetElapsedTimeInSeconds clk t);
          total = sum_samples (frameTimes t') 0 (sampleCount t') 0
      in if sampleCount t' > 0 then total / real (sampleCount t') else total)"
  by (simp add: GetElapsedTimeInSeconds_def raw_elapsed_def Let_def timer_setup_fields)

lemma timer_step_ok: "timer_ok t \<Longrightarrow> timer_ok (snd (GetElapsedTimeInSeconds clk t))"
  by (simp add: timer_ok_def timer_step_buffer timer_step_count push_sample_def MAX_SAMPLE_COUNT_def)

lemma timer_initial_ok: "timer_ok timer_initial"
  by (simp add: timer_ok_def timer_initial_def)

lemma timer_run_ok: "timer_ok t \<Longrightarrow> timer_ok (timer_run clks t)"
  by (induction clks arbitrary: t) (simp_all add: timer_run_def timer_step_ok)

lemma retained_after:
  assumes "timer_ok t"
  shows "retained (snd (GetElapsedTimeInSeconds clk t)) =
     (if \<bar>raw_elapsed clk t - actualElapsedTimeSec t\<bar> < 1
      then take MAX_SAMPLE_COUNT (raw_elapsed clk t # retained t) else retained t)"
proof (cases "\<bar>raw_elapsed clk t - actualElapsedTimeSec t\<bar> < 1")
  case True
  show ?thesis
  proof (cases "sampleCount t < MAX_SAMPLE_COUNT")
    case less: True
    then have "sampleCount t = 49 \<or> sampleCount t < 49"
      by (auto simp: MAX_SAMPLE_COUNT_def)
    then show ?thesis
      using True assms
      by (auto simp: retained_def timer_step_buffer timer_step_count push_sample_def
          timer_ok_def MAX_SAMPLE_COUNT_def min_def)
  next
    case False
    then have "sampleCount t = MAX_SAMPLE_COUNT"
      using assms by (simp add: timer_ok_def)
    then show ?thesis
      using True assms
      by (simp add: retained_def timer_step_buffer timer_step_count push_sample_def
          timer_ok_def MAX_SAMPLE_COUNT_def)
  qed
next
  case False
  then show ?thesis
    by (simp add: retained_def timer_step_buffer timer_step_count)
qed

lemma average_is_mean:
  assumes "timer_ok t"
  shows "actualElapsedTimeSec (snd (GetElapsedTimeInSeconds clk t)) =
           mean (retained (snd (GetElapsedTimeInSeconds clk t)))"
proof -
  let ?t' = "snd (GetElapsedTimeInSeconds clk t)"
  have ok: "timer_ok ?t'"
    using assms by (rule timer_step_ok)
  then have le: "sampleCount ?t' \<le> length (frameTimes ?t')"
    by (simp add: timer_ok_def)
  then have total: "sum_samples (frameTimes ?t') 0 (sampleCount ?t') 0 = sum_list (retained ?t')"
    by (simp add: sum_samples_eq retained_def)
  have len: "length (retained ?t') = sampleCount ?t'"
    using le by (simp add: retained_def)
  show ?thesis
  proof (cases "sampleCount ?t' > 0")
    case True
    then have "retained ?t' \<noteq> []"
      using len by auto
    then show ?thesis
      using True total len by (simp add: timer_step_average [of clk t] Let_def mean_def)
  next
    case False
    then have "retained ?t' = []"
      using len by auto
    then show ?thesis
      using False total by (simp add: timer_step_average [of clk t] Let_def mean_def)
  qed
qed

text \<open>
  Claim C9. Let \<open>t\<close> be the timer after any list of calls, with clocks of positive
  frequency, and \<open>e\<close> the raw elapsed time of the next call. If \<open>e\<close> differs from the
  current average by one second or more, the retained samples and their count are as
  before. Otherwise \<open>e\<close> becomes the newest retained sample, and the oldest is dropped
  when 50 were held. In both cases at most 50 samples are retained, and the value the
  call returns, which is also the new current average, is the arithmetic mean of the
  samples retained after the call (zero when none is retained).
\<close>

theorem C9_frame_timer_smoothing:
  assumes "\<forall>c \<in> set (clk # clks). 0 < frequency c"
    and "t = timer_run clks timer_initial"
    and "e = raw_elapsed clk t"
    and "t' = snd (GetElapsedTimeInSeconds clk t)"
  shows "(1 \<le> \<bar>e - actualElapsedTimeSec t\<bar> \<longrightarrow>
            retained t' = retained t \<and> sampleCount t' = sampleCount t)
         \<and> (\<bar>e - actualElapsedTimeSec t\<bar> < 1 \<longrightarrow>
              retained t' = take MAX_SAMPLE_COUNT (e # retained t))
         \<and> length (retained t') \<le> MAX_SAMPLE_COUNT
         \<and> fst (GetElapsedTimeInSeconds clk t) = mean (retained t')
         \<and> actualElapsedTimeSec t' = mean (retained t')"
proof -
  have ok: "timer_ok t"
    using assms(2) timer_initial_ok by (simp add: timer_run_ok)
  have "timer_ok t'"
    using ok assms(4) by (simp add: timer_step_ok)
  then have len: "length (retained t') \<le> MAX_SAMPLE_COUNT"
    by (simp add: retained_def timer_ok_def)
  show ?thesis
    using retained_after [OF ok, of clk] average_is_mean [OF ok, of clk] len assms(3,4)
    by (simp add: timer_step_result timer_step_count)
qed

lemma first_sample:
  "raw_elapsed \<lparr>frequency = 1000, counter_at_init = 0, counter = 16\<rparr> timer_initial = 2 / 125"
  "raw_elapsed \<lparr>frequency = 1000, counter_at_init = 0, counter = 5000\<rparr> timer_initial = 5"
  "actualElapsedTimeSec timer_initial = 0"
  "retained timer_initial = []"
  by (simp_all add: raw_elapsed_def timer_setup_def timer_initial_def retained_def Let_def)

text \<open>
  Two instances, each the first call of a run with a counter of 1000 ticks per second:
  a frame of 16 ticks is retained and returned, a frame of 5000 ticks is left out.
\<close>

theorem C9_frame_timer_smoothing_witness:
  "0 < frequency \<lparr>frequency = 1000, counter_at_init = 0, counter = 16\<rparr>
   \<and> 0 < frequency \<lparr>frequency = 1000, counter_at_init = 0, counter = 5000\<rparr>
   \<and> retained (snd (GetElapsedTimeInSeconds \<lparr>frequency = 1000, counter_at_init = 0, counter = 16\<rparr>
                    (timer_run [] timer_initial))) = [2 / 125]
   \<and> fst (GetElapsedTimeInSeconds \<lparr>frequency = 1000, counter_at_init = 0, counter = 16\<rparr>
            (timer_run [] timer_initial)) = 2 / 125
   \<and> retained (snd (GetElapsedTimeInSeconds \<lparr>frequency = 1000, counter_at_init = 0, counter = 5000\<rparr>
                    (timer_run [] timer_initial))) = []
   \<and> fst (GetElapsedTimeInSeconds \<lparr>frequency = 1000, counter_at_init = 0, counter = 5000\<rparr>
            (timer_run [] timer_initial)) = 0"
proof -
  have r: "timer_run [] timer_initial = timer_initial"
    by (simp add: timer_run_def)
  have p: "\<forall>c \<in> set [\<lparr>frequency = 1000, counter_at_init = 0, counter = 16\<rparr>]. 0 < frequency c"
    and q: "\<forall>c \<in> set [\<lparr>frequency = 1000, counter_at_init = 0, counter = 5000\<rparr>]. 0 < frequency c"
    by simp_all
  note a = C9_frame_timer_smoothing [OF p refl refl refl]
  note b = C9_frame_timer_smoothing [OF q refl refl refl]
  show ?thesis
    using a b by (simp add: r first_sample mean_def MAX_SAMPLE_COUNT_def)
qed

end
